theory Spec2Isabelle
  imports Complex_Main "HOL-Library.Char_ord" "HOL-Library.List_Lexorder" "HOL-Library.Sublist"
begin

section \<open>Conventions of the embedding\<close>

text \<open>
  The retrieval pipeline of the resume screener (\<^verbatim>\<open>src/rag/chunking.py\<close>,
  \<^verbatim>\<open>embeddings.py\<close>, \<^verbatim>\<open>vectorstore.py\<close>, \<^verbatim>\<open>rag.py\<close>) is embedded function by
  function.

  \<^item> A Python \<^verbatim>\<open>str\<close> is a \<open>string\<close>; its characters are the code points below 256.
  \<^item> A Python \<^verbatim>\<open>float\<close> is a \<open>real\<close>: rounding, infinities and NaN are not represented.
    Comparison, \<^verbatim>\<open>min\<close>, \<^verbatim>\<open>max\<close> and sorting of finite floats are exact, so they are the
    same on both sides; sums, products, quotients and square roots are the ideal ones.
    A stored vector is the vector that was written: the rounding to 32-bit floats of
    \<^verbatim>\<open>array("f", ...)\<close> is not represented.
  \<^item> A Python \<^verbatim>\<open>int\<close> is an \<open>int\<close>; a counter that only grows from zero is a \<open>nat\<close>.
  \<^item> A raised exception is the left summand of a result \<open>pyerr + 'a\<close>; a call that changes
    the table returns the exception, if any, together with the table it leaves behind.
  \<^item> A \<^verbatim>\<open>dict\<close> is an association list in insertion order, read with \<open>map_of\<close>.
  \<^item> Library functions whose text is not part of the repository and whose exact output
    plays no role are fields of the record \<open>pyenv\<close>, which every function that needs one
    takes as its first argument: \<open>fmt2\<close> is the format \<^verbatim>\<open>:.2f\<close>, \<open>str_of\<close> is \<^verbatim>\<open>str\<close> of a value
    that is not a string, \<open>float_of_str\<close> is \<^verbatim>\<open>float\<close> of a string (\<open>None\<close> for \<^verbatim>\<open>ValueError\<close>),
    \<open>blake2b8\<close> is the 8-byte BLAKE2b digest of the UTF-8 bytes read as a little-endian
    number, and \<open>as_str\<close> and \<open>as_opt_int\<close> are the schema library's validation of a value
    for a field of type \<^verbatim>\<open>str\<close> and \<^verbatim>\<open>Optional[int]\<close> (\<open>None\<close> for a validation error).
\<close>

datatype pyerr =
    IndexError
  | ZeroDivisionError
  | TypeError
  | AttributeError
  | ValueError
  | OverflowError
  | ValidationError
  | BackendError string

fun class_name :: "pyerr \<Rightarrow> string" where
  "class_name IndexError = ''IndexError''"
| "class_name ZeroDivisionError = ''ZeroDivisionError''"
| "class_name TypeError = ''TypeError''"
| "class_name AttributeError = ''AttributeError''"
| "class_name ValueError = ''ValueError''"
| "class_name OverflowError = ''OverflowError''"
| "class_name ValidationError = ''ValidationError''"
| "class_name (BackendError n) = n"

text \<open>Values of a metadata dictionary: the scalars the ingestion path writes.\<close>

datatype mval = MNone | MStr string | MInt int

text \<open>Values returned by \<^verbatim>\<open>json.loads\<close>: a number without fraction or exponent is an
  \<^verbatim>\<open>int\<close>, any other number a \<^verbatim>\<open>float\<close>.\<close>

datatype jval =
    JNull
  | JBool bool
  | JInt int
  | JFloat real
  | JStr string
  | JList "jval list"
  | JDict "(string \<times> jval) list"

record pyenv =
  fmt2 :: "real \<Rightarrow> string"
  str_of :: "jval \<Rightarrow> string"
  float_of_str :: "string \<Rightarrow> real option"
  blake2b8 :: "string \<Rightarrow> nat"
  as_str :: "mval \<Rightarrow> string option"
  as_opt_int :: "mval \<Rightarrow> int option option"

subsection \<open>Strings\<close>

definition nl :: char where
  "nl = CHR 0x0A"

definition cr :: char where
  "cr = CHR 0x0D"

definition sp :: char where
  "sp = CHR 0x20"

definition tab :: char where
  "tab = CHR 0x09"

text \<open>\<^verbatim>\<open>str.isspace\<close> on one character, for the code points below 256.\<close>

definition is_space :: "char \<Rightarrow> bool" where
  "is_space c = (let n = (of_char c :: nat) in
     (9 \<le> n \<and> n \<le> 13) \<or> (28 \<le> n \<and> n \<le> 32) \<or> n = 133 \<or> n = 160)"

definition strip :: "string \<Rightarrow> string" where
  "strip s = rev (dropWhile is_space (rev (dropWhile is_space s)))"

text \<open>\<^verbatim>\<open>sep.join(xs)\<close>.\<close>

fun join :: "string \<Rightarrow> string list \<Rightarrow> string" where
  "join sep [] = []"
| "join sep [x] = x"
| "join sep (x # y # ys) = x @ sep @ join sep (y # ys)"

text \<open>\<^verbatim>\<open>s[i:j]\<close>, \<^verbatim>\<open>s[:j]\<close> and \<^verbatim>\<open>s[i:]\<close> with Python's treatment of negative and
  out-of-range bounds.\<close>

definition slice_bound :: "'a list \<Rightarrow> int \<Rightarrow> nat" where
  "slice_bound s i = (let n = int (length s) in nat (if i < 0 then max (n + i) 0 else min i n))"

definition py_slice :: "'a list \<Rightarrow> int \<Rightarrow> int \<Rightarrow> 'a list" where
  "py_slice s i j = take (slice_bound s j - slice_bound s i) (drop (slice_bound s i) s)"

definition slice_to :: "'a list \<Rightarrow> int \<Rightarrow> 'a list" where
  "slice_to s j = take (slice_bound s j) s"

definition slice_from :: "'a list \<Rightarrow> int \<Rightarrow> 'a list" where
  "slice_from s i = drop (slice_bound s i) s"

section \<open>vectorstore.py\<close>

subsection \<open>Dictionaries and truthiness\<close>

text \<open>\<^verbatim>\<open>d.get(k)\<close> (\<^verbatim>\<open>None\<close> when the key is absent) and \<^verbatim>\<open>d.get(k, default)\<close>.\<close>

definition meta_get :: "(string \<times> mval) list \<Rightarrow> string \<Rightarrow> mval" where
  "meta_get d k = (case map_of d k of None \<Rightarrow> MNone | Some v \<Rightarrow> v)"

definition meta_get_default :: "(string \<times> mval) list \<Rightarrow> string \<Rightarrow> mval \<Rightarrow> mval" where
  "meta_get_default d k dflt = (case map_of d k of None \<Rightarrow> dflt | Some v \<Rightarrow> v)"

fun truthy :: "mval \<Rightarrow> bool" where
  "truthy MNone = False"
| "truthy (MStr s) = (s \<noteq> [])"
| "truthy (MInt n) = (n \<noteq> 0)"

text \<open>\<^verbatim>\<open>a or b\<close>.\<close>

definition py_or :: "mval \<Rightarrow> mval \<Rightarrow> mval" where
  "py_or a b = (if truthy a then a else b)"

subsection \<open>Decimal numerals\<close>

definition digit_char :: "nat \<Rightarrow> char" where
  "digit_char d = char_of (48 + d)"

fun str_nat :: "nat \<Rightarrow> string" where
  "str_nat n = (if n < 10 then [digit_char n] else str_nat (n div 10) @ [digit_char (n mod 10)])"

declare str_nat.simps [simp del]

definition str_int :: "int \<Rightarrow> string" where
  "str_int i = (if i < 0 then CHR ''-'' # str_nat (nat (- i)) else str_nat (nat i))"

subsection \<open>The table\<close>

text \<open>
  One row of the table \<^verbatim>\<open>chunks\<close>. The column \<^verbatim>\<open>meta_json\<close> holds the dictionary that
  \<^verbatim>\<open>json.dumps\<close> wrote and \<^verbatim>\<open>json.loads\<close> reads back; the column \<^verbatim>\<open>embedding\<close> holds
  the vector that \<^verbatim>\<open>array("f", ...)\<close> packed (its rounding to 32 bits is not represented).
  The table is the list of its rows in rowid order, which is the order of a scan, as the
  one connection of the store sees it; the primary key makes the ids distinct.
\<close>

record Row =
  row_id :: string
  row_doc_name :: string
  row_text :: string
  row_meta :: "(string \<times> mval) list"
  row_embedding :: "real list"

type_synonym store = "Row list"

definition wf_store :: "store \<Rightarrow> bool" where
  "wf_store s = distinct (map row_id s)"

text \<open>What \<^verbatim>\<open>sqlite3\<close> binds to a statement parameter: a string, \<^verbatim>\<open>None\<close>, or an integer of the
  signed 64-bit range; a larger integer raises \<^verbatim>\<open>OverflowError\<close>.\<close>

definition sqlite_int :: "int \<Rightarrow> bool" where
  "sqlite_int n = (- (2 ^ 63) \<le> n \<and> n < 2 ^ 63)"

fun binds :: "mval \<Rightarrow> bool" where
  "binds (MInt n) = sqlite_int n"
| "binds v = True"

text \<open>What a column of type TEXT holds after a scalar is bound to it. \<^verbatim>\<open>None\<close> is never
  bound: the \<^verbatim>\<open>or\<close> chain of \<^verbatim>\<open>upsert\<close> ends with a non-empty string.\<close>

fun sql_text :: "mval \<Rightarrow> string" where
  "sql_text (MStr s) = s"
| "sql_text (MInt n) = str_int n"
| "sql_text MNone = []"

text \<open>\<^verbatim>\<open>doc_name = ?\<close>: a bound \<^verbatim>\<open>None\<close> is NULL and equals nothing.\<close>

fun sql_eq :: "string \<Rightarrow> mval \<Rightarrow> bool" where
  "sql_eq col MNone = False"
| "sql_eq col v = (col = sql_text v)"

text \<open>\<^verbatim>\<open>INSERT OR REPLACE\<close> of one row: the row with the same primary key, if there is
  one, is deleted, and the new row gets the next rowid.\<close>

definition insert_or_replace :: "store \<Rightarrow> Row \<Rightarrow> store" where
  "insert_or_replace s r = filter (\<lambda>x. row_id x \<noteq> row_id r) s @ [r]"

text \<open>The value \<^verbatim>\<open>upsert\<close> binds to the column \<^verbatim>\<open>doc_name\<close>, and the parameters of one row.\<close>

definition doc_value :: "(string \<times> mval) list \<Rightarrow> mval" where
  "doc_value meta =
     py_or (meta_get meta ''doc_name'') (py_or (meta_get meta ''source'') (MStr ''unknown''))"

type_synonym params = "string \<times> mval \<times> string \<times> (string \<times> mval) list \<times> real list"

definition upsert_params :: "string \<times> real list \<times> string \<times> (string \<times> mval) list \<Rightarrow> params" where
  "upsert_params x = (case x of (i, emb, doc, meta) \<Rightarrow> (i, doc_value meta, doc, meta, emb))"

definition row_of :: "params \<Rightarrow> Row" where
  "row_of p = (case p of (i, v, doc, meta, emb) \<Rightarrow>
     \<lparr>row_id = i, row_doc_name = sql_text v, row_text = doc, row_meta = meta,
      row_embedding = emb\<rparr>)"

text \<open>\<^verbatim>\<open>executemany\<close>: the rows are bound and written one after the other. A row that
  cannot be bound raises; the rows before it have been written and stay visible to the
  connection, the commit is not reached. The result is the exception, if any, and the
  table as the connection sees it afterwards.\<close>

fun executemany :: "store \<Rightarrow> params list \<Rightarrow> pyerr option \<times> store" where
  "executemany s [] = (None, s)"
| "executemany s (p # ps) =
     (if binds (fst (snd p)) then executemany (insert_or_replace s (row_of p)) ps
      else (Some OverflowError, s))"

definition upsert ::
  "store \<Rightarrow> string list \<Rightarrow> real list list \<Rightarrow> string list \<Rightarrow> (string \<times> mval) list list
   \<Rightarrow> pyerr option \<times> store" where
  "upsert s ids embeddings documents metadatas =
     executemany s (map upsert_params (zip ids (zip embeddings (zip documents metadatas))))"

definition reset :: "store \<Rightarrow> store" where
  "reset s = []"


subsection \<open>query\<close>

text \<open>The position an index denotes: a negative index counts from the end; \<open>None\<close> when
  it is out of range. Then \<^verbatim>\<open>xs[i]\<close>.\<close>

definition norm_index :: "'a list \<Rightarrow> int \<Rightarrow> nat option" where
  "norm_index xs i =
     (if 0 \<le> i \<and> i < int (length xs) then Some (nat i)
      else if i < 0 \<and> - int (length xs) \<le> i then Some (nat (int (length xs) + i))
      else None)"

definition py_index :: "'a list \<Rightarrow> int \<Rightarrow> pyerr + 'a" where
  "py_index xs i = (case norm_index xs i of None \<Rightarrow> Inl IndexError | Some j \<Rightarrow> Inr (xs ! j))"

text \<open>\<^verbatim>\<open>for i in range(n): score += q[i] * emb[i]\<close>, over the indices still to visit.\<close>

fun dot_loop :: "real list \<Rightarrow> real list \<Rightarrow> nat list \<Rightarrow> real \<Rightarrow> pyerr + real" where
  "dot_loop q emb [] score = Inr score"
| "dot_loop q emb (i # is) score =
     (case py_index q (int i) of
        Inl e \<Rightarrow> Inl e
      | Inr a \<Rightarrow>
          (case py_index emb (int i) of
             Inl e \<Rightarrow> Inl e
           | Inr b \<Rightarrow> dot_loop q emb is (score + a * b)))"

definition clamp01 :: "real \<Rightarrow> real" where
  "clamp01 x = max 0 (min 1 x)"

type_synonym scored = "string \<times> string \<times> (string \<times> mval) list \<times> real"

definition scored_score :: "scored \<Rightarrow> real" where
  "scored_score x = snd (snd (snd x))"

definition score_row :: "real list \<Rightarrow> Row \<Rightarrow> pyerr + scored" where
  "score_row q r =
     (let emb = row_embedding r; n = min (length q) (length emb)
      in case dot_loop q emb [0..<n] 0 of
           Inl e \<Rightarrow> Inl e
         | Inr score \<Rightarrow> Inr (row_id r, row_text r, row_meta r, clamp01 score))"

fun score_rows :: "real list \<Rightarrow> Row list \<Rightarrow> pyerr + scored list" where
  "score_rows q [] = Inr []"
| "score_rows q (r # rs) =
     (case score_row q r of
        Inl e \<Rightarrow> Inl e
      | Inr x \<Rightarrow> (case score_rows q rs of Inl e \<Rightarrow> Inl e | Inr xs \<Rightarrow> Inr (x # xs)))"

text \<open>The rows the SELECT returns: all of them, or those of one document when
  \<^verbatim>\<open>where\<close> is a non-empty dictionary with the key \<^verbatim>\<open>doc_name\<close>; the value under that key
  is bound to the statement, which raises when it cannot be bound.\<close>

definition candidates :: "store \<Rightarrow> (string \<times> mval) list option \<Rightarrow> pyerr + Row list" where
  "candidates s wh =
     (case wh of
        None \<Rightarrow> Inr s
      | Some w \<Rightarrow>
          (case map_of w ''doc_name'' of
             None \<Rightarrow> Inr s
           | Some v \<Rightarrow>
               if binds v then Inr (filter (\<lambda>r. sql_eq (row_doc_name r) v) s)
               else Inl OverflowError))"

text \<open>\<^verbatim>\<open>scored.sort(key=lambda x: x[3], reverse=True)\<close>: a stable sort, descending.\<close>

definition sort_desc :: "scored list \<Rightarrow> scored list" where
  "sort_desc xs = sort_key (\<lambda>x. - scored_score x) xs"

definition query ::
  "store \<Rightarrow> real list \<Rightarrow> int \<Rightarrow> (string \<times> mval) list option \<Rightarrow> pyerr + scored list" where
  "query s query_embedding k wh =
     (case candidates s wh of
        Inl e \<Rightarrow> Inl e
      | Inr rows \<Rightarrow>
          (case score_rows query_embedding rows of
             Inl e \<Rightarrow> Inl e
           | Inr scored \<Rightarrow> Inr (slice_to (sort_desc scored) k)))"

section \<open>embeddings.py\<close>

text \<open>\<^verbatim>\<open>str.lower\<close> on one character, for the code points below 256.\<close>

definition py_lower_char :: "char \<Rightarrow> char" where
  "py_lower_char c = (let n = (of_char c :: nat) in
     if (65 \<le> n \<and> n \<le> 90) \<or> (192 \<le> n \<and> n \<le> 222 \<and> n \<noteq> 215) then char_of (n + 32) else c)"

definition lower :: "string \<Rightarrow> string" where
  "lower s = map py_lower_char s"

text \<open>The character class \<^verbatim>\<open>[a-z0-9\+\#\.\-]\<close> under \<^verbatim>\<open>re.IGNORECASE\<close>.\<close>

definition is_token_char :: "char \<Rightarrow> bool" where
  "is_token_char c = (let n = (of_char c :: nat) in
     (97 \<le> n \<and> n \<le> 122) \<or> (65 \<le> n \<and> n \<le> 90) \<or> (48 \<le> n \<and> n \<le> 57) \<or>
     c = CHR ''+'' \<or> c = CHR ''#'' \<or> c = CHR ''.'' \<or> c = CHR ''-'')"

text \<open>\<^verbatim>\<open>_TOKEN_RE.findall\<close>: the maximal runs of token characters, left to right, that
  have at least two characters. \<open>cur\<close> is the run being read.\<close>

definition close_run :: "string \<Rightarrow> string list" where
  "close_run cur = (if 2 \<le> length cur then [cur] else [])"

fun findall_tokens :: "string \<Rightarrow> string \<Rightarrow> string list" where
  "findall_tokens cur [] = close_run cur"
| "findall_tokens cur (c # cs) =
     (if is_token_char c then findall_tokens (cur @ [c]) cs
      else close_run cur @ findall_tokens [] cs)"

definition tokenize :: "string \<Rightarrow> string list" where
  "tokenize text = findall_tokens [] (lower text)"

text \<open>\<^verbatim>\<open>_hash_to_idx\<close>: \<^verbatim>\<open>n % self._dim\<close>, where \<open>n\<close> is the digest read as an unsigned
  integer. Python's \<^verbatim>\<open>%\<close> takes the sign of the divisor, as \<open>mod\<close> on \<open>int\<close> does.\<close>

definition hash_to_idx :: "pyenv \<Rightarrow> int \<Rightarrow> string \<Rightarrow> pyerr + int" where
  "hash_to_idx env ndim s =
     (if ndim = 0 then Inl ZeroDivisionError else Inr (int (blake2b8 env s) mod ndim))"

text \<open>\<^verbatim>\<open>v[i] += w\<close>.\<close>

definition add_at :: "real list \<Rightarrow> int \<Rightarrow> real \<Rightarrow> pyerr + real list" where
  "add_at v i w =
     (case norm_index v i of None \<Rightarrow> Inl IndexError | Some j \<Rightarrow> Inr (v[j := v ! j + w]))"

text \<open>The loop over \<^verbatim>\<open>enumerate(tokens)\<close>: the remaining tokens and the vector so far.\<close>

fun accumulate :: "pyenv \<Rightarrow> int \<Rightarrow> string list \<Rightarrow> real list \<Rightarrow> pyerr + real list" where
  "accumulate env ndim [] v = Inr v"
| "accumulate env ndim [tok] v =
     (case hash_to_idx env ndim tok of
        Inl e \<Rightarrow> Inl e
      | Inr idx \<Rightarrow> add_at v idx 1)"
| "accumulate env ndim (tok # nxt # rest) v =
     (case hash_to_idx env ndim tok of
        Inl e \<Rightarrow> Inl e
      | Inr idx \<Rightarrow>
          (case add_at v idx 1 of
             Inl e \<Rightarrow> Inl e
           | Inr v1 \<Rightarrow>
               (case hash_to_idx env ndim (tok @ ''_'' @ nxt) of
                  Inl e \<Rightarrow> Inl e
                | Inr bi \<Rightarrow>
                    (case add_at v1 bi (1 / 2) of
                       Inl e \<Rightarrow> Inl e
                     | Inr v2 \<Rightarrow> accumulate env ndim (nxt # rest) v2))))"

definition l2_norm :: "real list \<Rightarrow> real" where
  "l2_norm v = sqrt (\<Sum>x\<leftarrow>v. x * x)"

definition embed_one :: "pyenv \<Rightarrow> int \<Rightarrow> string \<Rightarrow> pyerr + real list" where
  "embed_one env ndim text =
     (case accumulate env ndim (tokenize text) (replicate (nat ndim) 0) of
        Inl e \<Rightarrow> Inl e
      | Inr v \<Rightarrow>
          (let norm = (if l2_norm v = 0 then 1 else l2_norm v)
           in Inr (map (\<lambda>x. x / norm) v)))"

fun embed :: "pyenv \<Rightarrow> int \<Rightarrow> string list \<Rightarrow> pyerr + real list list" where
  "embed env ndim [] = Inr []"
| "embed env ndim (t # ts) =
     (case embed_one env ndim t of
        Inl e \<Rightarrow> Inl e
      | Inr v \<Rightarrow> (case embed env ndim ts of Inl e \<Rightarrow> Inl e | Inr vs \<Rightarrow> Inr (v # vs)))"

section \<open>chunking.py\<close>

record Chunk =
  ch_chunk_id :: string
  ch_text :: string
  ch_meta :: "(string \<times> mval) list"

subsection \<open>normalize_text\<close>

text \<open>\<^verbatim>\<open>s.replace("\r\n", "\n")\<close>.\<close>

fun replace_crlf :: "string \<Rightarrow> string" where
  "replace_crlf (c # d # cs) =
     (if c = cr \<and> d = nl then nl # replace_crlf cs else c # replace_crlf (d # cs))"
| "replace_crlf cs = cs"

text \<open>\<^verbatim>\<open>re.sub(r"[ \t]+", " ", s)\<close>: each maximal run of spaces and tabs becomes one
  space. The flag says that the previous character belonged to a run.\<close>

fun collapse_blanks :: "bool \<Rightarrow> string \<Rightarrow> string" where
  "collapse_blanks in_run [] = []"
| "collapse_blanks in_run (c # cs) =
     (if c = sp \<or> c = tab
      then (if in_run then collapse_blanks True cs else sp # collapse_blanks True cs)
      else c # collapse_blanks False cs)"

text \<open>\<^verbatim>\<open>re.sub(r"\n{3,}", "\n\n", s)\<close>: a run of three or more newlines becomes two.
  The counter is the number of newlines of the current run already read.\<close>

fun collapse_newlines :: "nat \<Rightarrow> string \<Rightarrow> string" where
  "collapse_newlines k [] = []"
| "collapse_newlines k (c # cs) =
     (if c = nl
      then (if k < 2 then nl # collapse_newlines (Suc k) cs else collapse_newlines (Suc k) cs)
      else c # collapse_newlines 0 cs)"

definition normalize_text :: "string \<Rightarrow> string" where
  "normalize_text s =
     strip (collapse_newlines 0 (collapse_blanks False
       (map (\<lambda>c. if c = cr then nl else c) (replace_crlf s))))"

subsection \<open>split_into_sections\<close>

text \<open>\<^verbatim>\<open>s.split("\n")\<close> and \<^verbatim>\<open>s.split("\n\n")\<close>; \<open>cur\<close> is the piece being read.\<close>

fun split_lines :: "string \<Rightarrow> string \<Rightarrow> string list" where
  "split_lines cur [] = [cur]"
| "split_lines cur (c # cs) =
     (if c = nl then cur # split_lines [] cs else split_lines (cur @ [c]) cs)"

fun split_blank :: "string \<Rightarrow> string \<Rightarrow> string list" where
  "split_blank cur (c # d # cs) =
     (if c = nl \<and> d = nl then cur # split_blank [] cs else split_blank (cur @ [c]) (d # cs))"
| "split_blank cur cs = [cur @ cs]"

definition section_titles :: "string list" where
  "section_titles =
     [''summary'', ''experience'', ''work experience'', ''projects'', ''skills'', ''education'',
      ''certifications'', ''certificates'', ''publications'', ''achievements'', ''languages'',
      ''interests'']"

text \<open>\<^verbatim>\<open>_SECTION_RE.match(line)\<close>: the whole line, without the white space around it, is
  one of the titles in any case.\<close>

definition is_section_header :: "string \<Rightarrow> bool" where
  "is_section_header line = (lower (strip line) \<in> set section_titles)"

text \<open>The loop over the lines, with the sections closed so far, the current title and the
  lines of the current section; the end of the lines flushes the current section.\<close>

fun scan_lines ::
  "string list \<Rightarrow> (string \<times> string list) list \<Rightarrow> string \<Rightarrow> string list
   \<Rightarrow> (string \<times> string list) list" where
  "scan_lines [] sections title current =
     (if current \<noteq> [] then sections @ [(title, current)] else sections)"
| "scan_lines (line # rest_lines) sections title current =
     (if line = [] then scan_lines rest_lines sections title (current @ [[]])
      else if is_section_header line
      then scan_lines rest_lines (if current \<noteq> [] then sections @ [(title, current)] else sections)
             (strip line) []
      else scan_lines rest_lines sections title (current @ [line]))"

definition split_into_sections :: "string \<Rightarrow> (string \<times> string) list" where
  "split_into_sections text =
     (let lines = map strip (split_lines [] text)
      in map (\<lambda>(title, body). (title, strip (join [nl] body)))
           (filter (\<lambda>(title, body). strip (join [nl] body) \<noteq> [])
              (scan_lines lines [] ''BODY'' [])))"

subsection \<open>chunk_text\<close>

text \<open>\<^verbatim>\<open>f"{seq:04d}"\<close>.\<close>

definition pad4 :: "string \<Rightarrow> string" where
  "pad4 s = replicate (4 - length s) (CHR ''0'') @ s"

definition mk_chunk :: "string \<Rightarrow> string \<Rightarrow> nat \<Rightarrow> string \<Rightarrow> Chunk" where
  "mk_chunk doc_name section_title seq txt =
     \<lparr>ch_chunk_id = doc_name @ '':'' @ pad4 (str_nat seq),
      ch_text = txt,
      ch_meta = [(''doc_name'', MStr doc_name), (''section'', MStr section_title),
                 (''seq'', MInt (int seq))]\<rparr>"

text \<open>The loop \<^verbatim>\<open>while start < len(p)\<close> of the hard split. It does not return when the
  step is not positive; not returning is \<open>None\<close>.\<close>

partial_function (option) hard_split ::
  "string \<Rightarrow> string \<Rightarrow> int \<Rightarrow> int \<Rightarrow> string \<Rightarrow> int \<Rightarrow> Chunk list \<Rightarrow> nat
   \<Rightarrow> (Chunk list \<times> nat) option" where
  "hard_split doc_name section_title max_chars overlap_chars p start chunks seq =
     (if start < int (length p)
      then hard_split doc_name section_title max_chars overlap_chars p
             (start + (if max_chars > overlap_chars then max_chars - overlap_chars else max_chars))
             (chunks @ [mk_chunk doc_name section_title seq (py_slice p start (start + max_chars))])
             (Suc seq)
      else Some (chunks, seq))"

declare hard_split.simps [code]

text \<open>The loop over the paragraphs of one section: the buffer, the chunks and the
  sequence number are the state.\<close>

fun pack_paras ::
  "string \<Rightarrow> string \<Rightarrow> int \<Rightarrow> int \<Rightarrow> string list \<Rightarrow> string \<Rightarrow> Chunk list \<Rightarrow> nat
   \<Rightarrow> (string \<times> Chunk list \<times> nat) option" where
  "pack_paras doc_name section_title max_chars overlap_chars [] buf chunks seq =
     Some (buf, chunks, seq)"
| "pack_paras doc_name section_title max_chars overlap_chars (p # ps) buf chunks seq =
     (let candidate = (if buf \<noteq> [] then strip (buf @ [nl, nl] @ p) else p) in
      if int (length candidate) \<le> max_chars
      then pack_paras doc_name section_title max_chars overlap_chars ps candidate chunks seq
      else if buf \<noteq> []
      then pack_paras doc_name section_title max_chars overlap_chars ps
             (strip ((if 0 < overlap_chars then slice_from buf (- overlap_chars) else [])
                     @ [nl, nl] @ p))
             (chunks @ [mk_chunk doc_name section_title seq buf]) (Suc seq)
      else (case hard_split doc_name section_title max_chars overlap_chars p 0 chunks seq of
              None \<Rightarrow> None
            | Some (chunks', seq') \<Rightarrow>
                pack_paras doc_name section_title max_chars overlap_chars ps [] chunks' seq'))"

definition paragraphs :: "string \<Rightarrow> string list" where
  "paragraphs section_text = filter (\<lambda>p. p \<noteq> []) (map strip (split_blank [] section_text))"

text \<open>The loop over the sections; the buffer left by a section is flushed at its end.\<close>

fun chunk_sections ::
  "string \<Rightarrow> int \<Rightarrow> int \<Rightarrow> (string \<times> string) list \<Rightarrow> Chunk list \<Rightarrow> nat \<Rightarrow> Chunk list option" where
  "chunk_sections doc_name max_chars overlap_chars [] chunks seq = Some chunks"
| "chunk_sections doc_name max_chars overlap_chars ((section_title, section_text) # rest) chunks seq =
     (case pack_paras doc_name section_title max_chars overlap_chars
             (paragraphs section_text) [] chunks seq of
        None \<Rightarrow> None
      | Some (buf, chunks', seq') \<Rightarrow>
          (if buf \<noteq> []
           then chunk_sections doc_name max_chars overlap_chars rest
                  (chunks' @ [mk_chunk doc_name section_title seq' buf]) (Suc seq')
           else chunk_sections doc_name max_chars overlap_chars rest chunks' seq'))"

definition chunk_text :: "string \<Rightarrow> string \<Rightarrow> int \<Rightarrow> int \<Rightarrow> Chunk list option" where
  "chunk_text text doc_name max_chars overlap_chars =
     (let t = normalize_text text;
          sections = split_into_sections t
      in chunk_sections doc_name max_chars overlap_chars
           (if sections = [] then [(''BODY'', t)] else sections) [] 0)"

section \<open>rag.py: the confidence gate\<close>

record RetrievedChunk =
  rc_doc_name :: string
  rc_chunk_id :: string
  rc_text :: string
  rc_score :: real
  rc_page :: "int option"

record RAGConfig =
  top_k :: int
  min_relevance_score :: real

text \<open>\<^verbatim>\<open>max(c.score for c in chunks)\<close> on a non-empty list: the running maximum is
  replaced when a later item is strictly greater.\<close>

definition py_max :: "real \<Rightarrow> real list \<Rightarrow> real" where
  "py_max x xs = fold (\<lambda>y m. if m < y then y else m) xs x"

definition low_confidence_reason :: "pyenv \<Rightarrow> real \<Rightarrow> real \<Rightarrow> string" where
  "low_confidence_reason env best thr =
     ''Low retrieval confidence (best score='' @ fmt2 env best @ '' < '' @ fmt2 env thr @ '').''"

fun guardrail_context :: "pyenv \<Rightarrow> RAGConfig \<Rightarrow> RetrievedChunk list \<Rightarrow> bool \<times> string" where
  "guardrail_context env cfg [] = (False, ''No relevant context retrieved.'')"
| "guardrail_context env cfg (c # cs) =
     (let best = py_max (rc_score c) (map rc_score cs) in
      if best < min_relevance_score cfg
      then (False, low_confidence_reason env best (min_relevance_score cfg))
      else (True, ''''))"

section \<open>rag.py: retrieval and the three services\<close>

text \<open>
  The generation backend is a pair of functions of the system and the user prompt that
  return a value or raise. The three prompt constants of \<^verbatim>\<open>prompts.py\<close> are passed in a
  record: no function looks inside them. The embedder of the service is the hashing
  embedder with the dimension of the embedding configuration.
\<close>

record LLM =
  complete_json :: "string \<Rightarrow> string \<Rightarrow> pyerr + jval"
  complete_markdown :: "string \<Rightarrow> string \<Rightarrow> pyerr + string"

record Prompts =
  ANSWER_SYSTEM :: string
  COMPARE_SYSTEM :: string
  SCREEN_SYSTEM :: string

record RAGService =
  svc_cfg :: RAGConfig
  svc_llm :: "LLM option"
  svc_local_dim :: int
  svc_vs :: store

record Citation =
  cit_source :: string
  cit_chunk_id :: string
  cit_quote :: string

record ScreeningResult =
  sr_resume_name :: string
  sr_overall_fit :: string
  sr_confidence :: real
  sr_summary :: string
  sr_strengths :: "string list"
  sr_gaps :: "string list"
  sr_citations :: "Citation list"

subsection \<open>_retrieve\<close>

text \<open>The constructor of \<^verbatim>\<open>RetrievedChunk\<close> validates the document name and the page.\<close>

definition to_retrieved :: "pyenv \<Rightarrow> scored \<Rightarrow> pyerr + RetrievedChunk" where
  "to_retrieved env x = (case x of (i, doc, meta, score) \<Rightarrow>
     (case as_str env (meta_get_default meta ''doc_name'' (MStr ''unknown'')) of
        None \<Rightarrow> Inl ValidationError
      | Some name \<Rightarrow>
          (case as_opt_int env (meta_get meta ''page'') of
             None \<Rightarrow> Inl ValidationError
           | Some page \<Rightarrow>
               Inr \<lparr>rc_doc_name = name, rc_chunk_id = i, rc_text = doc, rc_score = score,
                     rc_page = page\<rparr>)))"

fun to_retrieved_all :: "pyenv \<Rightarrow> scored list \<Rightarrow> pyerr + RetrievedChunk list" where
  "to_retrieved_all env [] = Inr []"
| "to_retrieved_all env (x # xs) =
     (case to_retrieved env x of
        Inl e \<Rightarrow> Inl e
      | Inr c \<Rightarrow>
          (case to_retrieved_all env xs of Inl e \<Rightarrow> Inl e | Inr cs \<Rightarrow> Inr (c # cs)))"

definition retrieve ::
  "pyenv \<Rightarrow> RAGService \<Rightarrow> string \<Rightarrow> (string \<times> mval) list option
   \<Rightarrow> pyerr + RetrievedChunk list" where
  "retrieve env svc q wh =
     (case embed env (svc_local_dim svc) [q] of
        Inl e \<Rightarrow> Inl e
      | Inr vs \<Rightarrow>
          (case py_index vs 0 of
             Inl e \<Rightarrow> Inl e
           | Inr qv \<Rightarrow>
               (case query (svc_vs svc) qv (top_k (svc_cfg svc)) wh of
                  Inl e \<Rightarrow> Inl e
                | Inr res \<Rightarrow> to_retrieved_all env res)))"

subsection \<open>answer_question\<close>

definition backtick :: char where
  "backtick = CHR 0x60"

text \<open>The context block, one entry per chunk, and the bullets of the top three.\<close>

definition context_entry :: "pyenv \<Rightarrow> RetrievedChunk \<Rightarrow> string" where
  "context_entry env c =
     ''['' @ rc_chunk_id c @ '' | score='' @ fmt2 env (rc_score c) @ '']'' @ [nl] @ rc_text c"

definition context_of :: "pyenv \<Rightarrow> RetrievedChunk list \<Rightarrow> string" where
  "context_of env chunks = join [nl, nl] (map (context_entry env) chunks)"

definition bullets :: "RetrievedChunk list \<Rightarrow> string" where
  "bullets chunks =
     join [nl] (map (\<lambda>c. ''- '' @ [backtick] @ rc_chunk_id c @ [backtick] @ '': ''
                          @ strip (slice_to (rc_text c) 220) @ ''...'')
                  (slice_to chunks 3))"

definition refusal_text :: "string \<Rightarrow> string" where
  "refusal_text reason =
     ''I don't have enough evidence in the indexed resumes to answer that.'' @ [nl, nl]
     @ ''Reason: '' @ reason"

definition no_llm_text :: "RetrievedChunk list \<Rightarrow> string" where
  "no_llm_text chunks =
     ''LLM is not configured (set '' @ [backtick] @ ''OPENAI_API_KEY'' @ [backtick]
     @ ''). Here are the most relevant excerpts:'' @ [nl, nl] @ bullets chunks"

definition unavailable_text :: "RetrievedChunk list \<Rightarrow> string" where
  "unavailable_text chunks =
     ''LLM is currently unavailable (for example, due to rate limits or exhausted quota).''
     @ [nl, nl] @ ''Here are the most relevant excerpts from the resumes instead:''
     @ [nl, nl] @ bullets chunks"

definition answer_user :: "pyenv \<Rightarrow> string \<Rightarrow> RetrievedChunk list \<Rightarrow> string" where
  "answer_user env question chunks =
     ''QUESTION:'' @ [nl] @ question @ [nl, nl] @ ''CONTEXT:'' @ [nl] @ context_of env chunks"

text \<open>The body of \<^verbatim>\<open>answer_question\<close> after the retrieval.\<close>

definition answer_from ::
  "pyenv \<Rightarrow> Prompts \<Rightarrow> RAGService \<Rightarrow> string \<Rightarrow> RetrievedChunk list \<Rightarrow> string" where
  "answer_from env pr svc question chunks =
     (case guardrail_context env (svc_cfg svc) chunks of (ok, reason) \<Rightarrow>
        if \<not> ok then refusal_text reason
        else (case svc_llm svc of
                None \<Rightarrow> no_llm_text chunks
              | Some l \<Rightarrow>
                  (case complete_markdown l (ANSWER_SYSTEM pr)
                          (answer_user env question chunks) of
                     Inr answer \<Rightarrow> strip answer
                   | Inl e \<Rightarrow> unavailable_text chunks)))"

definition answer_question ::
  "pyenv \<Rightarrow> Prompts \<Rightarrow> RAGService \<Rightarrow> string \<Rightarrow> pyerr + string" where
  "answer_question env pr svc question =
     (case retrieve env svc question None of
        Inl e \<Rightarrow> Inl e
      | Inr chunks \<Rightarrow> Inr (answer_from env pr svc question chunks))"

subsection \<open>_screen_fallback\<close>

definition citation_of_chunk :: "string \<Rightarrow> RetrievedChunk \<Rightarrow> Citation" where
  "citation_of_chunk doc_name t =
     \<lparr>cit_source = doc_name, cit_chunk_id = rc_chunk_id t,
      cit_quote = strip (slice_to (rc_text t) 240)\<rparr>"

definition screen_fallback ::
  "string \<Rightarrow> string \<Rightarrow> RetrievedChunk list \<Rightarrow> string \<Rightarrow> ScreeningResult" where
  "screen_fallback doc_name job_desc chunks reason =
     (let top = slice_to chunks 5;
          conf = (if top \<noteq> [] then (\<Sum>c\<leftarrow>top. rc_score c) / real (length top) else 0);
          overall = (if conf < 35 / 100 then ''Unclear''
                     else if conf < 55 / 100 then ''Moderate'' else ''Strong'')
      in \<lparr>sr_resume_name = doc_name,
          sr_overall_fit = overall,
          sr_confidence = max 0 (min 1 conf),
          sr_summary =
            ''LLM is not configured or retrieval confidence is low. ''
            @ ''Showing best-effort, evidence-first excerpts.'' @ [nl] @ ''Reason: '' @ reason,
          sr_strengths = [''See cited excerpts for evidence; configure LLM for richer synthesis.''],
          sr_gaps =
            [''Insufficient evidence to fully assess without stronger retrieval / LLM synthesis.''],
          sr_citations = map (citation_of_chunk doc_name) (slice_to top 3)\<rparr>)"

subsection \<open>_parse_screening_json\<close>

fun j_truthy :: "jval \<Rightarrow> bool" where
  "j_truthy JNull = False"
| "j_truthy (JBool b) = b"
| "j_truthy (JInt n) = (n \<noteq> 0)"
| "j_truthy (JFloat r) = (r \<noteq> 0)"
| "j_truthy (JStr s) = (s \<noteq> [])"
| "j_truthy (JList xs) = (xs \<noteq> [])"
| "j_truthy (JDict kvs) = (kvs \<noteq> [])"

definition j_get :: "(string \<times> jval) list \<Rightarrow> string \<Rightarrow> jval" where
  "j_get d k = (case map_of d k of None \<Rightarrow> JNull | Some v \<Rightarrow> v)"

definition j_get_default :: "(string \<times> jval) list \<Rightarrow> string \<Rightarrow> jval \<Rightarrow> jval" where
  "j_get_default d k dflt = (case map_of d k of None \<Rightarrow> dflt | Some v \<Rightarrow> v)"

definition j_or :: "jval \<Rightarrow> jval \<Rightarrow> jval" where
  "j_or a b = (if j_truthy a then a else b)"

text \<open>The items a \<^verbatim>\<open>for\<close> loop or a comprehension visits: the elements of a list, the
  characters of a string, the keys of a dictionary; a number, a boolean or \<^verbatim>\<open>None\<close> is not
  iterable.\<close>

fun py_iter :: "jval \<Rightarrow> pyerr + jval list" where
  "py_iter (JList xs) = Inr xs"
| "py_iter (JStr s) = Inr (map (\<lambda>c. JStr [c]) s)"
| "py_iter (JDict kvs) = Inr (map (\<lambda>kv. JStr (fst kv)) kvs)"
| "py_iter v = Inl TypeError"

text \<open>\<^verbatim>\<open>str(v)\<close> and \<^verbatim>\<open>float(v)\<close>. The text of a float, a list or a dictionary is left
  to the environment. An integer that rounds to a float beyond the largest finite one
  raises \<^verbatim>\<open>OverflowError\<close>.\<close>

fun py_str :: "pyenv \<Rightarrow> jval \<Rightarrow> string" where
  "py_str env (JStr s) = s"
| "py_str env (JInt n) = str_int n"
| "py_str env (JBool b) = (if b then ''True'' else ''False'')"
| "py_str env JNull = ''None''"
| "py_str env v = str_of env v"

fun py_float :: "pyenv \<Rightarrow> jval \<Rightarrow> pyerr + real" where
  "py_float env (JFloat r) = Inr r"
| "py_float env (JInt n) =
     (if 2 ^ 1024 - 2 ^ 970 \<le> \<bar>n\<bar> then Inl OverflowError else Inr (real_of_int n))"
| "py_float env (JBool b) = Inr (if b then 1 else 0)"
| "py_float env (JStr s) = (case float_of_str env s of None \<Rightarrow> Inl ValueError | Some r \<Rightarrow> Inr r)"
| "py_float env v = Inl TypeError"

text \<open>One pass of the loop over the citations of the response: an item that is a
  dictionary with a non-empty \<^verbatim>\<open>chunk_id\<close> and a non-empty \<^verbatim>\<open>quote\<close> is kept.\<close>

definition citation_of_item :: "pyenv \<Rightarrow> string \<Rightarrow> jval \<Rightarrow> Citation list" where
  "citation_of_item env doc_name c =
     (case c of
        JDict d \<Rightarrow>
          (if j_truthy (j_get d ''chunk_id'') \<and> j_truthy (j_get d ''quote'')
           then [\<lparr>cit_source = doc_name, cit_chunk_id = py_str env (j_get d ''chunk_id''),
                  cit_quote = py_str env (j_get d ''quote'')\<rparr>]
           else [])
      | _ \<Rightarrow> [])"

definition overall_fit_literals :: "string list" where
  "overall_fit_literals = [''Strong'', ''Moderate'', ''Weak'', ''Unclear'']"

text \<open>The list comprehension \<^verbatim>\<open>[str(x) for x in (data.get(k) or [])][:8]\<close>.\<close>

definition str_items :: "pyenv \<Rightarrow> (string \<times> jval) list \<Rightarrow> string \<Rightarrow> pyerr + string list" where
  "str_items env d k =
     (case py_iter (j_or (j_get d k) (JList [])) of
        Inl e \<Rightarrow> Inl e
      | Inr xs \<Rightarrow> Inr (slice_to (map (py_str env) xs) 8))"

text \<open>The constructor of \<^verbatim>\<open>ScreeningResult\<close> checks the literal of \<^verbatim>\<open>overall_fit\<close> and the
  bounds of \<^verbatim>\<open>confidence\<close>.\<close>

definition validate_screening ::
  "string \<Rightarrow> jval \<Rightarrow> real \<Rightarrow> string \<Rightarrow> string list \<Rightarrow> string list \<Rightarrow> Citation list
   \<Rightarrow> pyerr + ScreeningResult" where
  "validate_screening doc_name fit conf summary strengths gaps citations =
     (case fit of
        JStr f \<Rightarrow>
          (if f \<in> set overall_fit_literals \<and> 0 \<le> conf \<and> conf \<le> 1
           then Inr \<lparr>sr_resume_name = doc_name, sr_overall_fit = f, sr_confidence = conf,
                     sr_summary = summary, sr_strengths = strengths, sr_gaps = gaps,
                     sr_citations = citations\<rparr>
           else Inl ValidationError)
      | _ \<Rightarrow> Inl ValidationError)"

definition parse_screening_json ::
  "pyenv \<Rightarrow> string \<Rightarrow> jval \<Rightarrow> RetrievedChunk list \<Rightarrow> pyerr + ScreeningResult" where
  "parse_screening_json env doc_name data chunks =
     (case data of
        JDict d \<Rightarrow>
          (case py_iter (j_or (j_get_default d ''citations'' (JList [])) (JList [])) of
             Inl e \<Rightarrow> Inl e
           | Inr items \<Rightarrow>
               (let found = concat (map (citation_of_item env doc_name) items);
                    citations = (if found = []
                                 then map (citation_of_chunk doc_name) (slice_to chunks 3)
                                 else found)
                in case py_float env (j_get_default d ''confidence'' (JFloat (4 / 10))) of
                     Inl e \<Rightarrow> Inl e
                   | Inr conf \<Rightarrow>
                       (case str_items env d ''strengths'' of
                          Inl e \<Rightarrow> Inl e
                        | Inr strengths \<Rightarrow>
                            (case str_items env d ''gaps'' of
                               Inl e \<Rightarrow> Inl e
                             | Inr gaps \<Rightarrow>
                                 validate_screening doc_name
                                   (j_get_default d ''overall_fit'' (JStr ''Unclear'')) conf
                                   (py_str env (j_get_default d ''summary'' (JStr [])))
                                   strengths gaps (slice_to citations 6)))))
      | _ \<Rightarrow> Inl AttributeError)"

subsection \<open>screen_resumes\<close>

definition screen_user :: "pyenv \<Rightarrow> string \<Rightarrow> string \<Rightarrow> RetrievedChunk list \<Rightarrow> string" where
  "screen_user env job_desc doc_name chunks =
     ''JOB DESCRIPTION:'' @ [nl] @ job_desc @ [nl, nl]
     @ ''CONTEXT (single resume: '' @ doc_name @ ''):'' @ [nl] @ context_of env chunks"

text \<open>The body of the loop of \<^verbatim>\<open>screen_resumes\<close> after the retrieval: everything raised
  inside the \<^verbatim>\<open>try\<close> is caught and answered by the fallback.\<close>

definition screen_one ::
  "pyenv \<Rightarrow> Prompts \<Rightarrow> RAGService \<Rightarrow> string \<Rightarrow> string \<Rightarrow> RetrievedChunk list
   \<Rightarrow> ScreeningResult" where
  "screen_one env pr svc job_desc doc_name chunks =
     (case guardrail_context env (svc_cfg svc) chunks of (ok, reason) \<Rightarrow>
        (case svc_llm svc of
           None \<Rightarrow> screen_fallback doc_name job_desc chunks reason
         | Some l \<Rightarrow>
             if \<not> ok then screen_fallback doc_name job_desc chunks reason
             else (case complete_json l (SCREEN_SYSTEM pr)
                          (screen_user env job_desc doc_name chunks) of
                     Inl e \<Rightarrow>
                       screen_fallback doc_name job_desc chunks (''LLM error: '' @ class_name e)
                   | Inr data \<Rightarrow>
                       (case parse_screening_json env doc_name data chunks of
                          Inl e \<Rightarrow>
                            screen_fallback doc_name job_desc chunks
                              (''LLM error: '' @ class_name e)
                        | Inr sr \<Rightarrow> sr))))"

text \<open>The filter \<^verbatim>\<open>{"doc_name": doc_name}\<close> of the retrieval for one document.\<close>

definition doc_filter :: "string \<Rightarrow> (string \<times> mval) list option" where
  "doc_filter doc_name = Some [(''doc_name'', MStr doc_name)]"

fun screen_resumes ::
  "pyenv \<Rightarrow> Prompts \<Rightarrow> RAGService \<Rightarrow> string \<Rightarrow> string list \<Rightarrow> pyerr + ScreeningResult list" where
  "screen_resumes env pr svc job_desc [] = Inr []"
| "screen_resumes env pr svc job_desc (doc_name # rest) =
     (case retrieve env svc job_desc (doc_filter doc_name) of
        Inl e \<Rightarrow> Inl e
      | Inr chunks \<Rightarrow>
          (case screen_resumes env pr svc job_desc rest of
             Inl e \<Rightarrow> Inl e
           | Inr results \<Rightarrow> Inr (screen_one env pr svc job_desc doc_name chunks # results)))"

subsection \<open>compare_resumes\<close>

definition resume_block :: "pyenv \<Rightarrow> RAGService \<Rightarrow> string \<Rightarrow> RetrievedChunk list \<Rightarrow> string" where
  "resume_block env svc doc_name chunks =
     (case guardrail_context env (svc_cfg svc) chunks of (ok, reason) \<Rightarrow>
        if \<not> ok
        then ''## '' @ doc_name @ [nl] @ ''No strong evidence retrieved. Reason: '' @ reason @ [nl]
        else ''## '' @ doc_name @ [nl] @ context_of env chunks @ [nl])"

fun resume_blocks :: "pyenv \<Rightarrow> RAGService \<Rightarrow> string \<Rightarrow> string list \<Rightarrow> pyerr + string list" where
  "resume_blocks env svc job_desc [] = Inr []"
| "resume_blocks env svc job_desc (doc_name # rest) =
     (case retrieve env svc job_desc (doc_filter doc_name) of
        Inl e \<Rightarrow> Inl e
      | Inr chunks \<Rightarrow>
          (case resume_blocks env svc job_desc rest of
             Inl e \<Rightarrow> Inl e
           | Inr blocks \<Rightarrow> Inr (resume_block env svc doc_name chunks # blocks)))"

definition compare_user :: "string \<Rightarrow> string list \<Rightarrow> string" where
  "compare_user job_desc per_resume_blocks =
     ''JOB DESCRIPTION:'' @ [nl] @ job_desc @ [nl, nl]
     @ ''CONTEXT (grouped by resume):'' @ [nl]
     @ join [nl, nl] per_resume_blocks @ [nl, nl]
     @ ''Return a markdown report with:'' @ [nl]
     @ ''- a comparison table'' @ [nl]
     @ ''- a ranked recommendation'' @ [nl]
     @ ''- bullet evidence per candidate with chunk_id citations.'' @ [nl]"

definition compare_no_llm_text :: "string list \<Rightarrow> string" where
  "compare_no_llm_text per_resume_blocks =
     ''LLM is not configured (set '' @ [backtick] @ ''OPENAI_API_KEY'' @ [backtick] @ '').''
     @ [nl, nl] @ ''Top evidence per resume:'' @ [nl, nl]
     @ join [nl, nl] (slice_to per_resume_blocks 6)"

definition compare_unavailable_text :: "string list \<Rightarrow> string" where
  "compare_unavailable_text per_resume_blocks =
     ''LLM is currently unavailable (for example, due to rate limits or exhausted quota).''
     @ [nl, nl] @ ''Here is the raw evidence per resume instead:'' @ [nl, nl]
     @ join [nl, nl] (slice_to per_resume_blocks 6)"

definition compare_from ::
  "Prompts \<Rightarrow> RAGService \<Rightarrow> string \<Rightarrow> string list \<Rightarrow> string" where
  "compare_from pr svc job_desc per_resume_blocks =
     (case svc_llm svc of
        None \<Rightarrow> compare_no_llm_text per_resume_blocks
      | Some l \<Rightarrow>
          (case complete_markdown l (COMPARE_SYSTEM pr)
                  (compare_user job_desc per_resume_blocks) of
             Inr report \<Rightarrow> report
           | Inl e \<Rightarrow> compare_unavailable_text per_resume_blocks))"

definition compare_resumes ::
  "pyenv \<Rightarrow> Prompts \<Rightarrow> RAGService \<Rightarrow> string \<Rightarrow> string list \<Rightarrow> pyerr + string" where
  "compare_resumes env pr svc job_desc resume_doc_names =
     (case resume_blocks env svc job_desc resume_doc_names of
        Inl e \<Rightarrow> Inl e
      | Inr blocks \<Rightarrow> Inr (compare_from pr svc job_desc blocks))"

section \<open>Auxiliary notions for the statements\<close>


text \<open>The dot product of two vectors over their common prefix, and the tuple that
  \<^verbatim>\<open>query\<close> builds for a row from it.\<close>

definition dot_prefix :: "real list \<Rightarrow> real list \<Rightarrow> real" where
  "dot_prefix q emb = (\<Sum>i<min (length q) (length emb). q ! i * emb ! i)"

definition scan :: "real list \<Rightarrow> Row \<Rightarrow> scored" where
  "scan q r = (row_id r, row_text r, row_meta r, clamp01 (dot_prefix q (row_embedding r)))"

text \<open>A filter that can be bound, and the rows it selects then.\<close>

definition filter_binds :: "(string \<times> mval) list option \<Rightarrow> bool" where
  "filter_binds wh =
     (case wh of
        None \<Rightarrow> True
      | Some w \<Rightarrow> (case map_of w ''doc_name'' of None \<Rightarrow> True | Some v \<Rightarrow> binds v))"

definition selected :: "store \<Rightarrow> (string \<times> mval) list option \<Rightarrow> Row list" where
  "selected s wh =
     (case wh of
        None \<Rightarrow> s
      | Some w \<Rightarrow>
          (case map_of w ''doc_name'' of
             None \<Rightarrow> s
           | Some v \<Rightarrow> filter (\<lambda>r. sql_eq (row_doc_name r) v) s))"

text \<open>The usable citations of a response: the items of its \<^verbatim>\<open>citations\<close> that are
  dictionaries with a non-empty \<^verbatim>\<open>chunk_id\<close> and a non-empty \<^verbatim>\<open>quote\<close>, as the loop of
  \<^verbatim>\<open>_parse_screening_json\<close> collects them.\<close>

definition usable_citations :: "pyenv \<Rightarrow> string \<Rightarrow> jval \<Rightarrow> Citation list" where
  "usable_citations env doc_name data =
     (case data of
        JDict d \<Rightarrow>
          (case py_iter (j_or (j_get_default d ''citations'' (JList [])) (JList [])) of
             Inl e \<Rightarrow> []
           | Inr items \<Rightarrow> concat (map (citation_of_item env doc_name) items))
      | _ \<Rightarrow> [])"

text \<open>The ids a screening result cites and the ids a retrieval returned.\<close>

definition cited_ids :: "ScreeningResult \<Rightarrow> string list" where
  "cited_ids sr = map cit_chunk_id (sr_citations sr)"

definition retrieved_ids :: "RetrievedChunk list \<Rightarrow> string list" where
  "retrieved_ids chunks = map rc_chunk_id chunks"

subsection \<open>Concrete inputs for the examples\<close>

text \<open>An environment in which the digest of a string is its length, every number
  prints as \<^verbatim>\<open>0.00\<close> and the schema accepts a string as a document name and an integer or
  \<^verbatim>\<open>None\<close> as a page; a table of two rows whose vectors have different lengths.\<close>

definition env0 :: pyenv where
  "env0 = \<lparr>fmt2 = (\<lambda>r. ''0.00''), str_of = (\<lambda>v. ''?''), float_of_str = (\<lambda>s. None),
           blake2b8 = length,
           as_str = (\<lambda>v. case v of MStr s \<Rightarrow> Some s | _ \<Rightarrow> None),
           as_opt_int = (\<lambda>v. case v of MNone \<Rightarrow> Some None | MInt n \<Rightarrow> Some (Some n)
                                 | _ \<Rightarrow> None)\<rparr>"

definition store0 :: store where
  "store0 = snd (upsert [] [''a.txt:0000'', ''b.txt:0000''] [[1, 0], [0, 1, 5]]
                   [''go rust'', ''java'']
                   [[(''doc_name'', MStr ''a.txt'')], [(''doc_name'', MStr ''b.txt'')]])"



definition cfg0 :: RAGConfig where
  "cfg0 = \<lparr>top_k = 6, min_relevance_score = 25 / 100\<rparr>"

text \<open>A service over a table of two documents, and three backends: one that cites a
  chunk id that no retrieval returned, one that always raises, and one that raises on
  the prompt of the first document only.\<close>

definition pr0 :: Prompts where
  "pr0 = \<lparr>ANSWER_SYSTEM = ''A'', COMPARE_SYSTEM = ''C'', SCREEN_SYSTEM = ''S''\<rparr>"

definition store1 :: store where
  "store1 = snd (upsert [] [''a.txt:0000'', ''b.txt:0000''] [[1, 0], [1 / 2, 0, 5]]
                   [''go rust'', ''go java'']
                   [[(''doc_name'', MStr ''a.txt'')], [(''doc_name'', MStr ''b.txt'')]])"

definition chunk_a :: RetrievedChunk where
  "chunk_a = \<lparr>rc_doc_name = ''a.txt'', rc_chunk_id = ''a.txt:0000'', rc_text = ''go rust'',
              rc_score = 1, rc_page = None\<rparr>"

definition chunk_b :: RetrievedChunk where
  "chunk_b = \<lparr>rc_doc_name = ''b.txt'', rc_chunk_id = ''b.txt:0000'', rc_text = ''go java'',
              rc_score = 1 / 2, rc_page = None\<rparr>"

definition data_fab :: jval where
  "data_fab = JDict [(''overall_fit'', JStr ''Strong''), (''confidence'', JFloat (9 / 10)),
                     (''summary'', JStr ''fits''),
                     (''citations'', JList [JDict [(''chunk_id'', JStr ''fabricated''),
                                                   (''quote'', JStr ''ten years of Go'')]])]"

definition sr_fab :: "string \<Rightarrow> ScreeningResult" where
  "sr_fab doc_name =
     \<lparr>sr_resume_name = doc_name, sr_overall_fit = ''Strong'', sr_confidence = 9 / 10,
      sr_summary = ''fits'', sr_strengths = [], sr_gaps = [],
      sr_citations = [\<lparr>cit_source = doc_name, cit_chunk_id = ''fabricated'',
                        cit_quote = ''ten years of Go''\<rparr>]\<rparr>"

text \<open>A response with a usable citation whose \<^verbatim>\<open>overall_fit\<close> is not one of the literals.\<close>

definition data_bad :: jval where
  "data_bad = JDict [(''overall_fit'', JStr ''bad''), (''confidence'', JFloat (9 / 10)),
                     (''summary'', JStr ''fits''),
                     (''citations'', JList [JDict [(''chunk_id'', JStr ''fabricated''),
                                                   (''quote'', JStr ''ten years of Go'')]])]"

definition llm_bad :: LLM where
  "llm_bad = \<lparr>complete_json = (\<lambda>system user. Inr data_bad),
              complete_markdown = (\<lambda>system user. Inr ''report'')\<rparr>"

definition timeout_error :: pyerr where
  "timeout_error = BackendError ''ReadTimeout''"

definition llm_fab :: LLM where
  "llm_fab = \<lparr>complete_json = (\<lambda>system user. Inr data_fab),
              complete_markdown = (\<lambda>system user. Inr ''report'')\<rparr>"

definition llm_down :: LLM where
  "llm_down = \<lparr>complete_json = (\<lambda>system user. Inl timeout_error),
               complete_markdown = (\<lambda>system user. Inl timeout_error)\<rparr>"

text \<open>The environment with the format \<^verbatim>\<open>:.2f\<close> written out: the number is rounded to
  hundredths, a tie to the even neighbour.\<close>

definition fmt2_half_even :: "real \<Rightarrow> string" where
  "fmt2_half_even r =
     (let x = \<bar>r\<bar> * 100; f = \<lfloor>x\<rfloor>;
          n = nat (if x - of_int f < 1 / 2 then f
                   else if 1 / 2 < x - of_int f then f + 1
                   else if even f then f else f + 1)
      in (if r < 0 then ''-'' else []) @ str_nat (n div 100) @ ''.''
         @ [digit_char (n div 10 mod 10), digit_char (n mod 10)])"

definition env1 :: pyenv where
  "env1 = env0\<lparr>fmt2 := fmt2_half_even\<rparr>"

definition llm_flaky :: LLM where
  "llm_flaky =
     \<lparr>complete_json = (\<lambda>system user.
        if user = screen_user env1 ''go'' ''a.txt'' [chunk_a] then Inl timeout_error
        else Inr data_fab),
      complete_markdown = (\<lambda>system user. Inl timeout_error)\<rparr>"

definition svc0 :: "LLM option \<Rightarrow> RAGService" where
  "svc0 backend = \<lparr>svc_cfg = cfg0, svc_llm = backend, svc_local_dim = 2, svc_vs = store1\<rparr>"

section \<open>Properties\<close>

subsection \<open>The confidence gate\<close>




subsection \<open>The similarity query\<close>

lemma py_index_in_range: "i < length xs \<Longrightarrow> py_index xs (int i) = Inr (xs ! i)"
  by (simp add: py_index_def norm_index_def)

lemma dot_loop_in_range:
  "\<forall>i\<in>set is. i < length q \<and> i < length emb \<Longrightarrow>
   dot_loop q emb is s = Inr (s + (\<Sum>i\<leftarrow>is. q ! i * emb ! i))"
  by (induction "is" arbitrary: s) (simp_all add: py_index_in_range add.assoc)

lemma score_row_total: "score_row q r = Inr (scan q r)"
proof -
  let ?n = "min (length q) (length (row_embedding r))"
  have "dot_loop q (row_embedding r) [0..<?n] 0
        = Inr (0 + (\<Sum>i\<leftarrow>[0..<?n]. q ! i * row_embedding r ! i))"
    by (rule dot_loop_in_range) simp
  moreover have "(\<Sum>i\<leftarrow>[0..<?n]. q ! i * row_embedding r ! i) = dot_prefix q (row_embedding r)"
    by (simp add: dot_prefix_def interv_sum_list_conv_sum_set_nat lessThan_atLeast0)
  ultimately show ?thesis
    by (simp add: score_row_def scan_def Let_def)
qed

lemma score_rows_total: "score_rows q rs = Inr (map (scan q) rs)"
  by (induction rs) (simp_all add: score_row_total)

lemma candidates_binds: "filter_binds wh \<Longrightarrow> candidates s wh = Inr (selected s wh)"
  by (auto simp: filter_binds_def candidates_def selected_def split: option.splits)

lemma candidates_overflow: "\<not> filter_binds wh \<Longrightarrow> candidates s wh = Inl OverflowError"
  by (auto simp: filter_binds_def candidates_def split: option.splits)

lemma query_total:
  "filter_binds wh \<Longrightarrow>
   query s q k wh = Inr (slice_to (sort_desc (map (scan q) (selected s wh))) k)"
  by (simp add: query_def candidates_binds score_rows_total)

lemma query_overflow: "\<not> filter_binds wh \<Longrightarrow> query s q k wh = Inl OverflowError"
  by (simp add: query_def candidates_overflow)

lemma clamp01_bounds: "0 \<le> clamp01 x \<and> clamp01 x \<le> 1"
  by (simp add: clamp01_def)

lemma length_slice_to: "0 \<le> k \<Longrightarrow> length (slice_to xs k) \<le> nat k"
  by (simp add: slice_to_def slice_bound_def Let_def)

lemma set_slice_to: "set (slice_to xs k) \<subseteq> set xs"
  by (simp add: slice_to_def set_take_subset)

lemma selected_subset: "set (selected s wh) \<subseteq> set s"
  by (auto simp: selected_def split: option.splits)

lemma sorted_desc: "sorted_wrt (\<lambda>a b. scored_score b \<le> scored_score a) (sort_desc xs)"
proof -
  have "sorted (map (\<lambda>x. - scored_score x) (sort_desc xs))"
    by (simp add: sort_desc_def)
  then show ?thesis
    by (simp add: sorted_map sorted_wrt_iff_nth_less)
qed

lemma filter_take_prefix: "prefix (filter P (take n xs)) (filter P xs)"
proof -
  have "filter P xs = filter P (take n xs) @ filter P (drop n xs)"
    by (metis append_take_drop_id filter_append)
  then show ?thesis by (simp add: prefix_def)
qed

lemma ties_stable:
  "filter (\<lambda>x. scored_score x = v) (sort_desc xs) = filter (\<lambda>x. scored_score x = v) xs"
proof -
  have "filter (\<lambda>x. - scored_score x = - v) (sort_key (\<lambda>x. - scored_score x) xs)
        = filter (\<lambda>x. - scored_score x = - v) xs"
    by (rule sort_key_stable)
  then show ?thesis by (simp add: sort_desc_def)
qed

lemmas upsert_eval =
  upsert_def upsert_params_def row_of_def doc_value_def insert_or_replace_def py_or_def meta_get_def
  sqlite_int_def

lemma store0_rows:
  "store0 =
     [\<lparr>row_id = ''a.txt:0000'', row_doc_name = ''a.txt'', row_text = ''go rust'',
        row_meta = [(''doc_name'', MStr ''a.txt'')], row_embedding = [1, 0]\<rparr>,
      \<lparr>row_id = ''b.txt:0000'', row_doc_name = ''b.txt'', row_text = ''java'',
        row_meta = [(''doc_name'', MStr ''b.txt'')], row_embedding = [0, 1, 5]\<rparr>]"
  by (simp add: store0_def upsert_eval)

lemmas query_eval =
  store0_rows query_def candidates_def score_row_def py_index_def norm_index_def clamp01_def
  slice_to_def slice_bound_def sort_desc_def scored_score_def Let_def upt_rec sqlite_int_def

text \<open>
  Claim C4. For every table, every query vector, every \<open>top_k \<ge> 0\<close> and every filter that
  can be bound to the statement (no filter, a string, or an integer of the 64-bit range),
  \<^verbatim>\<open>query\<close> returns at most \<open>top_k\<close> results, every returned score lies between 0 and 1,
  the results are sorted by score, greatest first, and results with equal scores come in
  the order of the scan of the table (they are a prefix of the scanned rows with that
  score).
\<close>

theorem query_bounded_sorted:
  assumes "0 \<le> k" and "filter_binds wh"
  shows "\<exists>rows scanned res.
           candidates s wh = Inr rows \<and>
           score_rows q rows = Inr scanned \<and>
           query s q k wh = Inr res \<and>
           length res \<le> nat k \<and>
           (\<forall>x\<in>set res. 0 \<le> scored_score x \<and> scored_score x \<le> 1) \<and>
           sorted_wrt (\<lambda>a b. scored_score b \<le> scored_score a) res \<and>
           (\<forall>v. prefix (filter (\<lambda>x. scored_score x = v) res)
                        (filter (\<lambda>x. scored_score x = v) scanned))"
proof -
  let ?rows = "selected s wh"
  let ?scanned = "map (scan q) ?rows"
  let ?res = "slice_to (sort_desc ?scanned) k"
  have r: "candidates s wh = Inr ?rows" using assms(2) by (rule candidates_binds)
  have a: "score_rows q ?rows = Inr ?scanned" by (rule score_rows_total)
  have b: "query s q k wh = Inr ?res" using assms(2) by (rule query_total)
  have c: "length ?res \<le> nat k" using assms(1) by (rule length_slice_to)
  have d: "\<forall>x\<in>set ?res. 0 \<le> scored_score x \<and> scored_score x \<le> 1"
  proof
    fix x assume "x \<in> set ?res"
    with set_slice_to [of "sort_desc ?scanned" k] have "x \<in> set (sort_desc ?scanned)" ..
    then have "x \<in> scan q ` set ?rows" by (simp add: sort_desc_def)
    then obtain r where "x = scan q r" ..
    then show "0 \<le> scored_score x \<and> scored_score x \<le> 1"
      by (simp add: scan_def scored_score_def clamp01_bounds)
  qed
  have e: "sorted_wrt (\<lambda>a b. scored_score b \<le> scored_score a) ?res"
    unfolding slice_to_def by (rule sorted_wrt_take) (rule sorted_desc)
  have f: "\<forall>v. prefix (filter (\<lambda>x. scored_score x = v) ?res)
                        (filter (\<lambda>x. scored_score x = v) ?scanned)"
  proof
    fix v
    have "prefix (filter (\<lambda>x. scored_score x = v) ?res)
                 (filter (\<lambda>x. scored_score x = v) (sort_desc ?scanned))"
      unfolding slice_to_def by (rule filter_take_prefix)
    then show "prefix (filter (\<lambda>x. scored_score x = v) ?res)
                 (filter (\<lambda>x. scored_score x = v) ?scanned)"
      by (simp add: ties_stable)
  qed
  show ?thesis
    by (rule exI [of _ ?rows], rule exI [of _ ?scanned], rule exI [of _ ?res])
      (intro conjI r a b c d e f)
qed

text \<open>Two rows that tie at 1/2 and \<open>top_k = 1\<close>: the row inserted first is returned; the
  same with the filter of a document.\<close>

theorem query_bounded_sorted_witness:
  "(0::int) \<le> 1 \<and> filter_binds None \<and> filter_binds (Some [(''doc_name'', MStr ''b.txt'')]) \<and>
   query store0 [1 / 2, 1 / 2] 1 None
     = Inr [(''a.txt:0000'', ''go rust'', [(''doc_name'', MStr ''a.txt'')], 1 / 2)] \<and>
   query store0 [1 / 2, 1 / 2] 1 (Some [(''doc_name'', MStr ''b.txt'')])
     = Inr [(''b.txt:0000'', ''java'', [(''doc_name'', MStr ''b.txt'')], 1 / 2)] \<and>
   (\<exists>rows scanned res.
      candidates store0 None = Inr rows \<and>
      score_rows [1 / 2, 1 / 2] rows = Inr scanned \<and>
      query store0 [1 / 2, 1 / 2] 1 None = Inr res \<and>
      length res \<le> nat 1 \<and>
      (\<forall>x\<in>set res. 0 \<le> scored_score x \<and> scored_score x \<le> 1) \<and>
      sorted_wrt (\<lambda>a b. scored_score b \<le> scored_score a) res \<and>
      (\<forall>v. prefix (filter (\<lambda>x. scored_score x = v) res)
                   (filter (\<lambda>x. scored_score x = v) scanned)))"
proof -
  have h: "(0::int) \<le> 1" by simp
  have b: "filter_binds None" "filter_binds (Some [(''doc_name'', MStr ''b.txt'')])"
    by (simp_all add: filter_binds_def)
  have "query store0 [1 / 2, 1 / 2] 1 None
     = Inr [(''a.txt:0000'', ''go rust'', [(''doc_name'', MStr ''a.txt'')], 1 / 2)]"
    and "query store0 [1 / 2, 1 / 2] 1 (Some [(''doc_name'', MStr ''b.txt'')])
     = Inr [(''b.txt:0000'', ''java'', [(''doc_name'', MStr ''b.txt'')], 1 / 2)]"
    by (simp_all add: query_eval)
  with h b query_bounded_sorted [OF h b(1), of store0 "[1 / 2, 1 / 2]"] show ?thesis
    by (simp only: simp_thms)
qed

text \<open>
  Claim C5. A query vector whose length differs from the length of a stored vector is
  not an error: \<^verbatim>\<open>query\<close> raises only when the value of the filter cannot be bound to the
  statement (an integer outside the 64-bit range), whatever the lengths are; otherwise it
  returns, and the score of every returned row is the clamped dot product over the first
  \<open>min (length q) (length emb)\<close> components.
\<close>

theorem query_common_prefix:
  "(\<not> filter_binds wh \<longrightarrow> query s q k wh = Inl OverflowError) \<and>
   (filter_binds wh \<longrightarrow>
      (\<exists>res. query s q k wh = Inr res \<and>
         (\<forall>x\<in>set res. \<exists>r\<in>set s.
            x = (row_id r, row_text r, row_meta r,
                 clamp01 (\<Sum>i<min (length q) (length (row_embedding r)).
                            q ! i * row_embedding r ! i)))))"
proof (intro conjI impI)
  assume "\<not> filter_binds wh"
  then show "query s q k wh = Inl OverflowError" by (rule query_overflow)
next
  assume fb: "filter_binds wh"
  let ?res = "slice_to (sort_desc (map (scan q) (selected s wh))) k"
  have "\<forall>x\<in>set ?res. \<exists>r\<in>set s. x = scan q r"
  proof
    fix x assume "x \<in> set ?res"
    with set_slice_to [of "sort_desc (map (scan q) (selected s wh))" k]
    have "x \<in> set (sort_desc (map (scan q) (selected s wh)))" ..
    then have "x \<in> scan q ` set (selected s wh)" by (simp add: sort_desc_def)
    then obtain r where "r \<in> set (selected s wh)" "x = scan q r" by blast
    with selected_subset [of s wh] show "\<exists>r\<in>set s. x = scan q r" by blast
  qed
  then have scores: "\<forall>x\<in>set ?res. \<exists>r\<in>set s.
      x = (row_id r, row_text r, row_meta r,
           clamp01 (\<Sum>i<min (length q) (length (row_embedding r)). q ! i * row_embedding r ! i))"
    by (simp only: scan_def dot_prefix_def)
  show "\<exists>res. query s q k wh = Inr res \<and>
         (\<forall>x\<in>set res. \<exists>r\<in>set s.
            x = (row_id r, row_text r, row_meta r,
                 clamp01 (\<Sum>i<min (length q) (length (row_embedding r)).
                            q ! i * row_embedding r ! i)))"
    by (rule exI [of _ ?res]) (intro conjI query_total [OF fb] scores)
qed

text \<open>A query vector of length 2 against stored vectors of lengths 2 and 3 (the third
  component, 5, of the second row takes no part), and a filter that cannot be bound.\<close>

theorem query_common_prefix_witness:
  "filter_binds None \<and>
   query store0 [1 / 2, 1 / 2] 5 None
     = Inr [(''a.txt:0000'', ''go rust'', [(''doc_name'', MStr ''a.txt'')], 1 / 2),
            (''b.txt:0000'', ''java'', [(''doc_name'', MStr ''b.txt'')], 1 / 2)] \<and>
   \<not> filter_binds (Some [(''doc_name'', MInt (2 ^ 63))]) \<and>
   query store0 [1 / 2, 1 / 2] 5 (Some [(''doc_name'', MInt (2 ^ 63))]) = Inl OverflowError \<and>
   (\<exists>res. query store0 [1 / 2, 1 / 2] 5 None = Inr res \<and>
      (\<exists>x. x \<in> set res \<and> (\<exists>r. r \<in> set store0 \<and> length (row_embedding r) = 3 \<and>
         x = (row_id r, row_text r, row_meta r,
              clamp01 (\<Sum>i<min (length [1 / 2, 1 / 2 :: real]) (length (row_embedding r)).
                         [1 / 2, 1 / 2] ! i * row_embedding r ! i)))))"
proof -
  have b: "filter_binds None" by (simp add: filter_binds_def)
  have nb: "\<not> filter_binds (Some [(''doc_name'', MInt (2 ^ 63))])"
    by (simp add: filter_binds_def sqlite_int_def)
  have ev: "query store0 [1 / 2, 1 / 2] 5 None
     = Inr [(''a.txt:0000'', ''go rust'', [(''doc_name'', MStr ''a.txt'')], 1 / 2),
            (''b.txt:0000'', ''java'', [(''doc_name'', MStr ''b.txt'')], 1 / 2)]"
    by (simp add: query_eval)
  from query_common_prefix [of "Some [(''doc_name'', MInt (2 ^ 63))]" store0 "[1 / 2, 1 / 2]" 5] nb
  have ov: "query store0 [1 / 2, 1 / 2] 5 (Some [(''doc_name'', MInt (2 ^ 63))]) = Inl OverflowError"
    by blast
  from query_common_prefix [of None store0 "[1 / 2, 1 / 2]" 5] b ev
  have all: "\<forall>x\<in>set [(''a.txt:0000'', ''go rust'', [(''doc_name'', MStr ''a.txt'')], 1 / 2 :: real),
            (''b.txt:0000'', ''java'', [(''doc_name'', MStr ''b.txt'')], 1 / 2)]. \<exists>r\<in>set store0.
         x = (row_id r, row_text r, row_meta r,
              clamp01 (\<Sum>i<min (length [1 / 2, 1 / 2 :: real]) (length (row_embedding r)).
                         [1 / 2, 1 / 2] ! i * row_embedding r ! i))"
    by simp
  then obtain r where r: "r \<in> set store0"
    "(''b.txt:0000'', ''java'', [(''doc_name'', MStr ''b.txt'')], 1 / 2 :: real)
       = (row_id r, row_text r, row_meta r,
              clamp01 (\<Sum>i<min (length [1 / 2, 1 / 2 :: real]) (length (row_embedding r)).
                         [1 / 2, 1 / 2] ! i * row_embedding r ! i))"
    by auto
  from r have "row_id r = ''b.txt:0000''" by simp
  with r(1) have "length (row_embedding r) = 3" by (auto simp: store0_rows)
  with r ev have "\<exists>res. query store0 [1 / 2, 1 / 2] 5 None = Inr res \<and>
      (\<exists>x. x \<in> set res \<and> (\<exists>r. r \<in> set store0 \<and> length (row_embedding r) = 3 \<and>
         x = (row_id r, row_text r, row_meta r,
              clamp01 (\<Sum>i<min (length [1 / 2, 1 / 2 :: real]) (length (row_embedding r)).
                         [1 / 2, 1 / 2] ! i * row_embedding r ! i))))"
    by (intro exI [of _ "[(''a.txt:0000'', ''go rust'', [(''doc_name'', MStr ''a.txt'')], 1 / 2),
            (''b.txt:0000'', ''java'', [(''doc_name'', MStr ''b.txt'')], 1 / 2)]"] conjI
         exI [of _ "(''b.txt:0000'', ''java'', [(''doc_name'', MStr ''b.txt'')], 1 / 2)"]
         exI [of _ r]) simp_all
  with b nb ev ov show ?thesis by (simp only: simp_thms)
qed

subsection \<open>upsert\<close>



lemma wf_insert_or_replace: "wf_store s \<Longrightarrow> wf_store (insert_or_replace s r)"
  by (auto simp: wf_store_def insert_or_replace_def distinct_map_filter)

lemma wf_executemany: "wf_store s \<Longrightarrow> wf_store (snd (executemany s ps))"
  by (induction ps arbitrary: s) (simp_all add: wf_insert_or_replace)

lemma wf_upsert: "wf_store s \<Longrightarrow> wf_store (snd (upsert s ids es ds ms))"
  by (simp add: upsert_def wf_executemany)













subsection \<open>The hashing embedder\<close>

lemma hash_to_idx_pos:
  "0 < ndim \<Longrightarrow> \<exists>i. hash_to_idx env ndim s = Inr i \<and> 0 \<le> i \<and> i < ndim"
  by (simp add: hash_to_idx_def)

lemma sum_list_update_add:
  "j < length v \<Longrightarrow> sum_list (v[j := v ! j + w]) = sum_list v + (w::real)"
proof (induction v arbitrary: j)
  case Nil
  then show ?case by simp
next
  case (Cons x xs)
  then show ?case by (cases j) simp_all
qed

lemma add_at_in_range:
  assumes "0 \<le> i" "i < int (length v)" "0 \<le> w" "\<forall>x\<in>set v. 0 \<le> x"
  shows "\<exists>v'. add_at v i w = Inr v' \<and> length v' = length v \<and> (\<forall>x\<in>set v'. 0 \<le> x)
              \<and> sum_list v' = sum_list v + w"
proof -
  let ?v' = "v[nat i := v ! nat i + w]"
  from assms(1,2) have j: "nat i < length v" by linarith
  from assms(1,2) have "add_at v i w = Inr ?v'"
    by (simp add: add_at_def norm_index_def)
  moreover have "\<forall>x\<in>set ?v'. 0 \<le> x"
  proof
    fix x assume "x \<in> set ?v'"
    then have "x = v ! nat i + w \<or> x \<in> set v"
      using set_update_subset_insert [of v "nat i" "v ! nat i + w"] by auto
    moreover have "0 \<le> v ! nat i" using assms(4) j by simp
    ultimately show "0 \<le> x" using assms(3,4) by auto
  qed
  moreover have "sum_list ?v' = sum_list v + w"
    using j by (rule sum_list_update_add)
  ultimately show ?thesis by simp
qed

lemma accumulate_pos:
  "0 < ndim \<Longrightarrow> length v = nat ndim \<Longrightarrow> \<forall>x\<in>set v. 0 \<le> x \<Longrightarrow>
         \<exists>v'. accumulate env ndim toks v = Inr v' \<and> length v' = nat ndim \<and> (\<forall>x\<in>set v'. 0 \<le> x)
              \<and> (toks = [] \<longrightarrow> v' = v) \<and> (toks \<noteq> [] \<longrightarrow> sum_list v + 1 \<le> sum_list v')"
proof (induction env ndim toks v rule: accumulate.induct)
  case (1 env ndim v)
  then show ?case by simp
next
  case (2 env ndim tok v)
  from hash_to_idx_pos [OF "2.prems"(1)] obtain i where
    i: "hash_to_idx env ndim tok = Inr i" "0 \<le> i" "i < ndim" by blast
  with 2 have "i < int (length v)" by simp
  from add_at_in_range [OF i(2) this, of 1] "2.prems"(3) obtain v' where
    "add_at v i 1 = Inr v'" "length v' = length v" "\<forall>x\<in>set v'. 0 \<le> x" "sum_list v' = sum_list v + 1"
    by auto
  with i 2 show ?case by simp
next
  case (3 env ndim tok nxt rest v)
  note pos = "3.prems"(1)
  from hash_to_idx_pos [OF pos] obtain i where
    i: "hash_to_idx env ndim tok = Inr i" "0 \<le> i" "i < ndim" by blast
  with 3 have "i < int (length v)" by simp
  from add_at_in_range [OF i(2) this, of 1] "3.prems"(3) obtain v1 where
    v1: "add_at v i 1 = Inr v1" "length v1 = length v" "\<forall>x\<in>set v1. 0 \<le> x"
        "sum_list v1 = sum_list v + 1"
    by auto
  from hash_to_idx_pos [OF pos] obtain b where
    b: "hash_to_idx env ndim (tok @ ''_'' @ nxt) = Inr b" "0 \<le> b" "b < ndim" by blast
  with 3 v1 have "b < int (length v1)" by simp
  from add_at_in_range [OF b(2) this, of "1 / 2"] v1(3) obtain v2 where
    v2: "add_at v1 b (1 / 2) = Inr v2" "length v2 = length v1" "\<forall>x\<in>set v2. 0 \<le> x"
        "sum_list v2 = sum_list v1 + 1 / 2"
    by auto
  have "length v2 = nat ndim" using v2 v1 3 by simp
  from "3.IH" [OF i(1) v1(1) b(1) v2(1) pos this v2(3)] obtain v' where
    v': "accumulate env ndim (nxt # rest) v2 = Inr v'" "length v' = nat ndim"
        "\<forall>x\<in>set v'. 0 \<le> x" "sum_list v2 + 1 \<le> sum_list v'"
    by auto
  have "accumulate env ndim (tok # nxt # rest) v = Inr v'"
    using i(1) v1(1) b(1) v2(1) v'(1) by simp
  moreover have "sum_list v + 1 \<le> sum_list v'"
    using v1(4) v2(4) v'(4) by simp
  ultimately show ?case using v'(2,3) by simp
qed

lemma sum_squares_nonneg: "0 \<le> (\<Sum>x\<leftarrow>v. x * (x::real))"
  by (induction v) simp_all

lemma sum_squares_pos:
  "\<forall>x\<in>set v. 0 \<le> x \<Longrightarrow> 0 < sum_list v \<Longrightarrow> 0 < (\<Sum>x\<leftarrow>v. x * (x::real))"
proof (induction v)
  case Nil
  then show ?case by simp
next
  case (Cons a v)
  have nn: "0 \<le> (\<Sum>x\<leftarrow>v. x * x)" by (rule sum_squares_nonneg)
  show ?case
  proof (cases "0 < a")
    case True
    then have "0 < a * a" by simp
    with nn show ?thesis by simp
  next
    case False
    with Cons.prems have "a = 0" "0 < sum_list v" by auto
    with Cons show ?thesis by simp
  qed
qed

lemma l2_norm_scale:
  assumes "0 < n"
  shows "l2_norm (map (\<lambda>x. x / n) v) = l2_norm v / n"
proof -
  have "(\<Sum>x\<leftarrow>map (\<lambda>x. x / n) v. x * x) = (\<Sum>x\<leftarrow>v. x * x) / (n * n)"
    by (induction v) (simp_all add: add_divide_distrib)
  then have "l2_norm (map (\<lambda>x. x / n) v) = sqrt ((\<Sum>x\<leftarrow>v. x * x) / (n * n))"
    by (simp add: l2_norm_def)
  also have "\<dots> = sqrt (\<Sum>x\<leftarrow>v. x * x) / n"
    using assms by (simp add: real_sqrt_divide)
  finally show ?thesis by (simp add: l2_norm_def)
qed

lemma embed_one_shape:
  assumes "0 < ndim"
  shows "\<exists>v. embed_one env ndim text = Inr v \<and> length v = nat ndim \<and> (\<forall>x\<in>set v. 0 \<le> x)
           \<and> (if tokenize text = [] then v = replicate (nat ndim) 0 else l2_norm v = 1)"
proof -
  let ?z = "replicate (nat ndim) (0::real)"
  have "length ?z = nat ndim" "\<forall>x\<in>set ?z. 0 \<le> x" by simp_all
  from accumulate_pos [OF assms this, of env "tokenize text"] obtain u where
    u: "accumulate env ndim (tokenize text) ?z = Inr u" "length u = nat ndim" "\<forall>x\<in>set u. 0 \<le> x"
       "tokenize text = [] \<longrightarrow> u = ?z" "tokenize text \<noteq> [] \<longrightarrow> sum_list ?z + 1 \<le> sum_list u"
    by blast
  let ?norm = "if l2_norm u = 0 then 1 else l2_norm u"
  let ?v = "map (\<lambda>x. x / ?norm) u"
  have res: "embed_one env ndim text = Inr ?v"
    using u(1) by (simp add: embed_one_def Let_def)
  have norm_nonneg: "0 \<le> l2_norm u"
    by (simp add: l2_norm_def sum_squares_nonneg)
  then have norm_pos: "0 < ?norm" by simp
  have len: "length ?v = nat ndim" using u(2) by simp
  have nonneg: "\<forall>x\<in>set ?v. 0 \<le> x"
    using u(3) norm_pos by (auto simp: divide_nonneg_pos simp del: split_paired_All)
  have shape: "if tokenize text = [] then ?v = ?z else l2_norm ?v = 1"
  proof (cases "tokenize text = []")
    case True
    with u(4) have "u = ?z" by simp
    then have "?v = ?z" by (simp add: l2_norm_def)
    with True show ?thesis by simp
  next
    case False
    with u(5) have "0 < sum_list u" by (simp add: sum_list_replicate)
    with u(3) have "0 < (\<Sum>x\<leftarrow>u. x * x)" by (rule sum_squares_pos)
    then have pos: "0 < l2_norm u" by (simp add: l2_norm_def)
    then have "l2_norm ?v = l2_norm u / l2_norm u"
      using l2_norm_scale [OF pos, of u] by simp
    with pos have "l2_norm ?v = 1" by simp
    with False show ?thesis by simp
  qed
  from res len nonneg shape show ?thesis by blast
qed


lemma embed_total:
  "0 < ndim \<Longrightarrow> \<exists>vs. embed env ndim ts = Inr vs \<and> length vs = length ts"
proof (induction ts)
  case Nil
  then show ?case by simp
next
  case (Cons t ts)
  from embed_one_shape [OF Cons.prems, of env t] obtain v where "embed_one env ndim t = Inr v"
    by blast
  moreover from Cons obtain vs where "embed env ndim ts = Inr vs" "length vs = length ts"
    by blast
  ultimately show ?case by simp
qed

text \<open>
  Claim C8. For a positive dimension \<open>D\<close> and every text, \<^verbatim>\<open>_embed_one\<close> returns a vector of
  length \<open>D\<close> whose components are non-negative; its Euclidean norm is 1 when the text
  has a token, and it is the zero vector when the text has none (the norm is then
  replaced by 1 before the division). Floats are reals here, so the norm is exactly 1.
\<close>

theorem embed_one_unit_vector:
  assumes "0 < ndim"
  shows "\<exists>v. embed_one env ndim text = Inr v \<and> length v = nat ndim \<and> (\<forall>x\<in>set v. 0 \<le> x)
           \<and> (if tokenize text = [] then v = replicate (nat ndim) 0 else l2_norm v = 1)"
  using assms by (rule embed_one_shape)

text \<open>One token in dimension 2, and a text without a token.\<close>

lemmas embed_eval =
  embed_one_def tokenize_def lower_def py_lower_char_def is_token_char_def close_run_def
  hash_to_idx_def env0_def add_at_def norm_index_def l2_norm_def Let_def numeral_2_eq_2

theorem embed_one_unit_vector_witness:
  "(0::int) < 2 \<and>
   tokenize ''go'' = [''go''] \<and> embed_one env0 2 ''go'' = Inr [1, 0] \<and> l2_norm [1, 0] = 1 \<and>
   tokenize ''!'' = [] \<and> embed_one env0 2 ''!'' = Inr [0, 0]"
proof -
  have pos: "(0::int) < 2" by simp
  have go: "tokenize ''go'' = [''go'']" and none: "tokenize ''!'' = []"
    by (simp_all add: embed_eval)
  from embed_one_unit_vector [OF pos, of env0 "''go''"] go
  have "l2_norm [1, 0] = 1" by (simp add: embed_eval)
  moreover from embed_one_unit_vector [OF pos, of env0 "''!''"] none
  have "embed_one env0 2 ''!'' = Inr [0, 0]" by (auto simp: numeral_2_eq_2)
  moreover have "embed_one env0 2 ''go'' = Inr [1, 0]" by (simp add: embed_eval)
  ultimately show ?thesis using pos go none by (simp only: simp_thms)
qed
subsection \<open>The chunker\<close>

text \<open>
  Claim C2 says that every chunk of \<^verbatim>\<open>chunk_text\<close> has at most \<open>max_chars\<close> characters.
  The code does not keep this bound: when a paragraph overflows a non-empty buffer, the
  buffer is flushed and the next buffer is the overlap tail followed by the whole
  paragraph, whose length is never compared with \<open>max_chars\<close>. Two runs: the text
  \<^verbatim>\<open>ab\n\ncdefghij\<close> with \<open>max_chars = 5\<close> and no overlap gives a second chunk of 8
  characters; the text \<^verbatim>\<open>abcd  efgh\n\nxyzuvw\<close> with \<open>max_chars = 10\<close> and an overlap of 4
  gives a second chunk of 12 characters.
\<close>

theorem chunk_text_exceeds_max_chars:
  "chunk_text (''ab'' @ [nl, nl] @ ''cdefghij'') ''d'' 5 0
     = Some [mk_chunk ''d'' ''BODY'' 0 ''ab'', mk_chunk ''d'' ''BODY'' 1 ''cdefghij''] \<and>
   length (ch_text (mk_chunk ''d'' ''BODY'' 1 ''cdefghij'')) = 8 \<and>
   chunk_text (''abcd  efgh'' @ [nl, nl] @ ''xyzuvw'') ''d'' 10 4
     = Some [mk_chunk ''d'' ''BODY'' 0 ''abcd efgh'',
             mk_chunk ''d'' ''BODY'' 1 (''efgh'' @ [nl, nl] @ ''xyzuvw'')] \<and>
   length (ch_text (mk_chunk ''d'' ''BODY'' 1 (''efgh'' @ [nl, nl] @ ''xyzuvw''))) = 12"
  by code_simp

subsection \<open>The services on the example table\<close>

lemma store1_rows:
  "store1 =
     [\<lparr>row_id = ''a.txt:0000'', row_doc_name = ''a.txt'', row_text = ''go rust'',
        row_meta = [(''doc_name'', MStr ''a.txt'')], row_embedding = [1, 0]\<rparr>,
      \<lparr>row_id = ''b.txt:0000'', row_doc_name = ''b.txt'', row_text = ''go java'',
        row_meta = [(''doc_name'', MStr ''b.txt'')], row_embedding = [1 / 2, 0, 5]\<rparr>]"
  by (simp add: store1_def upsert_eval)

lemmas retrieve_eval =
  retrieve_def svc0_def cfg0_def embed_eval store1_rows query_def candidates_def score_row_def
  py_index_def clamp01_def slice_to_def slice_bound_def sort_desc_def scored_score_def upt_rec
  to_retrieved_def meta_get_def meta_get_default_def doc_filter_def

lemma retrieve_a: "retrieve env0 (svc0 backend) ''go'' (doc_filter ''a.txt'') = Inr [chunk_a]"
  by (simp add: retrieve_eval chunk_a_def)

lemma retrieve_b: "retrieve env0 (svc0 backend) ''go'' (doc_filter ''b.txt'') = Inr [chunk_b]"
  by (simp add: retrieve_eval chunk_b_def)

lemma retrieve_all: "retrieve env0 (svc0 backend) ''go'' None = Inr [chunk_a, chunk_b]"
  by (simp add: retrieve_eval chunk_a_def chunk_b_def)

lemma gate_a: "guardrail_context env0 (svc_cfg (svc0 backend)) [chunk_a] = (True, [])"
  by (simp add: py_max_def svc0_def cfg0_def chunk_a_def)

lemma gate_all: "guardrail_context env0 (svc_cfg (svc0 backend)) [chunk_a, chunk_b] = (True, [])"
  by (simp add: py_max_def svc0_def cfg0_def chunk_a_def chunk_b_def)

lemma parse_fab: "parse_screening_json env0 d data_fab chunks = Inr (sr_fab d)"
  by (simp add: parse_screening_json_def data_fab_def j_get_default_def j_get_def j_or_def
      citation_of_item_def str_items_def validate_screening_def overall_fit_literals_def
      slice_to_def slice_bound_def sr_fab_def)

lemma retrieve_a1: "retrieve env1 (svc0 backend) ''go'' (doc_filter ''a.txt'') = Inr [chunk_a]"
  by (simp add: retrieve_eval env1_def chunk_a_def)

lemma retrieve_b1: "retrieve env1 (svc0 backend) ''go'' (doc_filter ''b.txt'') = Inr [chunk_b]"
  by (simp add: retrieve_eval env1_def chunk_b_def)

lemma retrieve_all1: "retrieve env1 (svc0 backend) ''go'' None = Inr [chunk_a, chunk_b]"
  by (simp add: retrieve_eval env1_def chunk_a_def chunk_b_def)

lemma gate_a1: "guardrail_context env1 (svc_cfg (svc0 backend)) [chunk_a] = (True, [])"
  by (simp add: py_max_def svc0_def cfg0_def chunk_a_def)

lemma gate_b1: "guardrail_context env1 (svc_cfg (svc0 backend)) [chunk_b] = (True, [])"
  by (simp add: py_max_def svc0_def cfg0_def chunk_b_def)

lemma gate_all1: "guardrail_context env1 (svc_cfg (svc0 backend)) [chunk_a, chunk_b] = (True, [])"
  by (simp add: py_max_def svc0_def cfg0_def chunk_a_def chunk_b_def)

lemma digit_chars:
  "digit_char 0 = CHR ''0''" "digit_char (Suc 0) = CHR ''1''" "digit_char 5 = CHR ''5''"
  by code_simp+

lemma fmt2_scores: "fmt2 env1 1 = ''1.00''" "fmt2 env1 (1 / 2) = ''0.50''"
  by (simp_all add: env1_def env0_def fmt2_half_even_def Let_def str_nat.simps digit_chars)

lemma parse_fab1: "parse_screening_json env1 d data_fab chunks = Inr (sr_fab d)"
  by (simp add: parse_screening_json_def data_fab_def j_get_default_def j_get_def j_or_def
      citation_of_item_def str_items_def validate_screening_def overall_fit_literals_def
      slice_to_def slice_bound_def sr_fab_def)

lemma flaky_on_a:
  "complete_json llm_flaky (SCREEN_SYSTEM pr0) (screen_user env1 ''go'' ''a.txt'' [chunk_a])
   = Inl timeout_error"
  by (simp add: llm_flaky_def)

lemma flaky_on_b:
  "complete_json llm_flaky (SCREEN_SYSTEM pr0) (screen_user env1 ''go'' ''b.txt'' [chunk_b])
   = Inr data_fab"
  by (simp add: llm_flaky_def screen_user_def)

lemma screen_one_fab:
  "screen_one env0 pr0 (svc0 (Some llm_fab)) ''go'' ''a.txt'' [chunk_a] = sr_fab ''a.txt''"
  by (simp add: screen_one_def svc0_def py_max_def cfg0_def chunk_a_def llm_fab_def parse_fab)

lemma parse_bad: "parse_screening_json env0 d data_bad chunks = Inl ValidationError"
  by (simp add: parse_screening_json_def data_bad_def j_get_default_def j_get_def j_or_def
      citation_of_item_def str_items_def validate_screening_def overall_fit_literals_def
      slice_to_def slice_bound_def)

subsection \<open>Citations of a screening result\<close>

lemma slice_to_take: "slice_to xs (int n) = take n xs"
  by (simp add: slice_to_def slice_bound_def Let_def min_def)

lemma slice_to_3: "slice_to xs 3 = take 3 xs"
  using slice_to_take [of xs 3] by simp

lemma slice_to_5: "slice_to xs 5 = take 5 xs"
  using slice_to_take [of xs 5] by simp

lemma slice_to_6: "slice_to xs 6 = take 6 xs"
  using slice_to_take [of xs 6] by simp

lemma slice_to_220: "slice_to xs 220 = take 220 xs"
  using slice_to_take [of xs 220] by simp

lemma slice_to_240: "slice_to xs 240 = take 240 xs"
  using slice_to_take [of xs 240] by simp

lemmas slices = slice_to_3 slice_to_5 slice_to_6 slice_to_220 slice_to_240

lemma top3_explicit:
  "map (citation_of_chunk d) (slice_to chunks 3)
   = map (\<lambda>t. \<lparr>cit_source = d, cit_chunk_id = rc_chunk_id t,
                cit_quote = strip (take 240 (rc_text t))\<rparr>) (take 3 chunks)"
  by (simp add: citation_of_chunk_def slices)

lemma fallback_citations:
  "sr_citations (screen_fallback d job chunks reason) = map (citation_of_chunk d) (slice_to chunks 3)"
  by (simp add: screen_fallback_def Let_def slices min_def)

lemma validate_citations:
  "validate_screening d fit conf summary strengths gaps cits = Inr sr \<Longrightarrow> sr_citations sr = cits"
  by (auto simp: validate_screening_def split: jval.splits if_splits)

lemma parse_citations:
  assumes "parse_screening_json env d data chunks = Inr sr"
  shows "sr_citations sr =
           (if usable_citations env d data = [] then map (citation_of_chunk d) (slice_to chunks 3)
            else take 6 (usable_citations env d data))"
proof (cases data)
  case (JDict dict)
  with assms obtain items where
    items: "py_iter (j_or (j_get_default dict ''citations'' (JList [])) (JList [])) = Inr items"
    by (auto simp: parse_screening_json_def split: sum.splits)
  let ?found = "concat (map (citation_of_item env d) items)"
  let ?cits = "if ?found = [] then map (citation_of_chunk d) (slice_to chunks 3) else ?found"
  have usable: "usable_citations env d data = ?found"
    by (simp add: usable_citations_def JDict items)
  from assms JDict items obtain fit conf summary strengths gaps where
    "validate_screening d fit conf summary strengths gaps (slice_to ?cits 6) = Inr sr"
    by (auto simp: parse_screening_json_def Let_def split: sum.splits)
  then have "sr_citations sr = slice_to ?cits 6" by (rule validate_citations)
  moreover have "take 6 (map (citation_of_chunk d) (slice_to chunks 3))
                 = map (citation_of_chunk d) (slice_to chunks 3)"
    by (simp add: slices)
  ultimately have "sr_citations sr =
             (if ?found = [] then map (citation_of_chunk d) (slice_to chunks 3) else take 6 ?found)"
    by (simp only: slice_to_6 if_distrib [of "take 6"] if_True if_False split: if_splits)
  then show ?thesis by (simp only: usable)
qed (use assms in \<open>simp_all add: parse_screening_json_def\<close>)

lemma screen_one_parsed:
  assumes "svc_llm svc = Some l"
    and "fst (guardrail_context env (svc_cfg svc) chunks)"
    and "complete_json l (SCREEN_SYSTEM pr) (screen_user env job d chunks) = Inr data"
    and "parse_screening_json env d data chunks = Inr sr"
  shows "screen_one env pr svc job d chunks = sr"
proof (cases "guardrail_context env (svc_cfg svc) chunks")
  case (Pair ok reason)
  with assms(2) have "ok" by simp
  with Pair assms(1,3,4) show ?thesis by (simp add: screen_one_def)
qed

lemma screen_one_falls_back:
  assumes "svc_llm svc = None \<or> \<not> fst (guardrail_context env (svc_cfg svc) chunks) \<or>
           (\<exists>l e. svc_llm svc = Some l \<and>
              complete_json l (SCREEN_SYSTEM pr) (screen_user env job d chunks) = Inl e) \<or>
           (\<exists>l data e. svc_llm svc = Some l \<and>
              complete_json l (SCREEN_SYSTEM pr) (screen_user env job d chunks) = Inr data \<and>
              parse_screening_json env d data chunks = Inl e)"
  shows "\<exists>reason. screen_one env pr svc job d chunks = screen_fallback d job chunks reason"
proof (cases "guardrail_context env (svc_cfg svc) chunks")
  case (Pair ok reason)
  with assms show ?thesis
    by (cases ok) (auto simp: screen_one_def split: option.splits sum.splits)
qed

text \<open>
  Claim C1, amended. A screening result that comes from the backend (a backend is
  configured, the gate passed, the call returned and the response passed
  \<^verbatim>\<open>_parse_screening_json\<close> and the validation of the schema) is the parsed result, and its
  citations are the first six usable citations of the response, exactly as the backend
  gave them and without any comparison with the retrieved chunks; when the response has no
  usable citation they are the top three retrieved chunks. In every other case (no
  backend, the gate failed, the call raised, or the response did not parse or validate,
  even when it holds usable citations) the result is the fallback and its citations are
  the top three retrieved chunks. The ids of the top three retrieved chunks are retrieved
  ids.
\<close>

theorem screen_one_citations:
  "(svc_llm svc = Some l \<and> fst (guardrail_context env (svc_cfg svc) chunks) \<and>
    complete_json l (SCREEN_SYSTEM pr) (screen_user env job d chunks) = Inr data \<and>
    parse_screening_json env d data chunks = Inr sr \<longrightarrow>
      screen_one env pr svc job d chunks = sr \<and>
      sr_citations sr
        = (if usable_citations env d data = []
           then map (\<lambda>t. \<lparr>cit_source = d, cit_chunk_id = rc_chunk_id t,
                           cit_quote = strip (take 240 (rc_text t))\<rparr>) (take 3 chunks)
           else take 6 (usable_citations env d data))) \<and>
   (svc_llm svc = None \<or> \<not> fst (guardrail_context env (svc_cfg svc) chunks) \<or>
    (\<exists>l e. svc_llm svc = Some l \<and>
       complete_json l (SCREEN_SYSTEM pr) (screen_user env job d chunks) = Inl e) \<or>
    (\<exists>l data e. svc_llm svc = Some l \<and>
       complete_json l (SCREEN_SYSTEM pr) (screen_user env job d chunks) = Inr data \<and>
       parse_screening_json env d data chunks = Inl e) \<longrightarrow>
      sr_citations (screen_one env pr svc job d chunks)
        = map (\<lambda>t. \<lparr>cit_source = d, cit_chunk_id = rc_chunk_id t,
                     cit_quote = strip (take 240 (rc_text t))\<rparr>) (take 3 chunks)) \<and>
   set (map rc_chunk_id (take 3 chunks)) \<subseteq> set (retrieved_ids chunks)"
proof (intro conjI impI)
  assume h: "svc_llm svc = Some l \<and> fst (guardrail_context env (svc_cfg svc) chunks) \<and>
    complete_json l (SCREEN_SYSTEM pr) (screen_user env job d chunks) = Inr data \<and>
    parse_screening_json env d data chunks = Inr sr"
  then show "screen_one env pr svc job d chunks = sr"
    by (intro screen_one_parsed [of svc l env chunks pr job d data sr]) simp_all
  from h have "parse_screening_json env d data chunks = Inr sr" by simp
  then show "sr_citations sr
        = (if usable_citations env d data = []
           then map (\<lambda>t. \<lparr>cit_source = d, cit_chunk_id = rc_chunk_id t,
                           cit_quote = strip (take 240 (rc_text t))\<rparr>) (take 3 chunks)
           else take 6 (usable_citations env d data))"
    by (simp only: parse_citations top3_explicit)
next
  assume "svc_llm svc = None \<or> \<not> fst (guardrail_context env (svc_cfg svc) chunks) \<or>
    (\<exists>l e. svc_llm svc = Some l \<and>
       complete_json l (SCREEN_SYSTEM pr) (screen_user env job d chunks) = Inl e) \<or>
    (\<exists>l data e. svc_llm svc = Some l \<and>
       complete_json l (SCREEN_SYSTEM pr) (screen_user env job d chunks) = Inr data \<and>
       parse_screening_json env d data chunks = Inl e)"
  then obtain reason where
    "screen_one env pr svc job d chunks = screen_fallback d job chunks reason"
    using screen_one_falls_back by blast
  then show "sr_citations (screen_one env pr svc job d chunks)
        = map (\<lambda>t. \<lparr>cit_source = d, cit_chunk_id = rc_chunk_id t,
                     cit_quote = strip (take 240 (rc_text t))\<rparr>) (take 3 chunks)"
    by (simp only: fallback_citations top3_explicit)
next
  show "set (map rc_chunk_id (take 3 chunks)) \<subseteq> set (retrieved_ids chunks)"
    using set_take_subset [of 3 chunks] by (auto simp: retrieved_ids_def)
qed

text \<open>A backend that answers the prompt of \<^verbatim>\<open>a.txt\<close> with a citation of the chunk id
  \<^verbatim>\<open>fabricated\<close>: the gate passes, the response is valid, and the result cites an id that
  the retrieval of that call did not return.\<close>

theorem screen_citation_counterexample:
  "retrieve env0 (svc0 (Some llm_fab)) ''go'' (doc_filter ''a.txt'') = Inr [chunk_a] \<and>
   retrieved_ids [chunk_a] = [''a.txt:0000''] \<and>
   screen_resumes env0 pr0 (svc0 (Some llm_fab)) ''go'' [''a.txt''] = Inr [sr_fab ''a.txt''] \<and>
   cited_ids (sr_fab ''a.txt'') = [''fabricated'']"
  by (simp add: retrieve_a screen_one_fab) (simp add: retrieved_ids_def cited_ids_def chunk_a_def sr_fab_def)

text \<open>The same backend, a backend whose response holds the same citation and an
  \<^verbatim>\<open>overall_fit\<close> that is not a literal, and no backend.\<close>

theorem screen_one_citations_witness:
  "sr_citations (screen_one env0 pr0 (svc0 (Some llm_fab)) ''go'' ''a.txt'' [chunk_a])
     = [\<lparr>cit_source = ''a.txt'', cit_chunk_id = ''fabricated'', cit_quote = ''ten years of Go''\<rparr>] \<and>
   parse_screening_json env0 ''a.txt'' data_bad [chunk_a] = Inl ValidationError \<and>
   usable_citations env0 ''a.txt'' data_bad
     = [\<lparr>cit_source = ''a.txt'', cit_chunk_id = ''fabricated'', cit_quote = ''ten years of Go''\<rparr>] \<and>
   sr_citations (screen_one env0 pr0 (svc0 (Some llm_bad)) ''go'' ''a.txt'' [chunk_a])
     = [\<lparr>cit_source = ''a.txt'', cit_chunk_id = ''a.txt:0000'', cit_quote = ''go rust''\<rparr>] \<and>
   sr_citations (screen_one env0 pr0 (svc0 None) ''go'' ''a.txt'' [chunk_a])
     = [\<lparr>cit_source = ''a.txt'', cit_chunk_id = ''a.txt:0000'', cit_quote = ''go rust''\<rparr>] \<and>
   retrieved_ids [chunk_a] = [''a.txt:0000'']"
proof -
  let ?fab = "\<lparr>cit_source = ''a.txt'', cit_chunk_id = ''fabricated'', cit_quote = ''ten years of Go''\<rparr>"
  let ?top = "\<lparr>cit_source = ''a.txt'', cit_chunk_id = ''a.txt:0000'', cit_quote = ''go rust''\<rparr>"
  have top: "map (\<lambda>t. \<lparr>cit_source = ''a.txt'', cit_chunk_id = rc_chunk_id t,
                     cit_quote = strip (take 240 (rc_text t))\<rparr>) (take 3 [chunk_a]) = [?top]"
    by (simp add: chunk_a_def strip_def is_space_def)
  have usable_fab: "usable_citations env0 ''a.txt'' data_fab = [?fab]"
    and usable_bad: "usable_citations env0 ''a.txt'' data_bad = [?fab]"
    by (simp_all add: usable_citations_def data_fab_def data_bad_def j_get_default_def j_or_def
        citation_of_item_def j_get_def)
  have fab: "svc_llm (svc0 (Some llm_fab)) = Some llm_fab \<and>
      fst (guardrail_context env0 (svc_cfg (svc0 (Some llm_fab))) [chunk_a]) \<and>
      complete_json llm_fab (SCREEN_SYSTEM pr0) (screen_user env0 ''go'' ''a.txt'' [chunk_a])
        = Inr data_fab \<and>
      parse_screening_json env0 ''a.txt'' data_fab [chunk_a] = Inr (sr_fab ''a.txt'')"
    by (simp add: gate_a parse_fab del: guardrail_context.simps) (simp add: svc0_def llm_fab_def)
  from screen_one_citations [of "svc0 (Some llm_fab)" llm_fab env0 "[chunk_a]" pr0 "''go''" "''a.txt''"
      data_fab "sr_fab ''a.txt''"] fab
  have "screen_one env0 pr0 (svc0 (Some llm_fab)) ''go'' ''a.txt'' [chunk_a] = sr_fab ''a.txt''"
    and "sr_citations (sr_fab ''a.txt'') = take 6 [?fab]"
    by (simp_all only: usable_fab) simp_all
  then have a: "sr_citations (screen_one env0 pr0 (svc0 (Some llm_fab)) ''go'' ''a.txt'' [chunk_a])
     = [?fab]"
    by simp
  have bad: "\<exists>l data e. svc_llm (svc0 (Some llm_bad)) = Some l \<and>
       complete_json l (SCREEN_SYSTEM pr0) (screen_user env0 ''go'' ''a.txt'' [chunk_a]) = Inr data \<and>
       parse_screening_json env0 ''a.txt'' data [chunk_a] = Inl e"
    by (intro exI [of _ llm_bad] exI [of _ data_bad] exI [of _ ValidationError])
       (simp add: parse_bad svc0_def llm_bad_def)
  from screen_one_citations [of "svc0 (Some llm_bad)" llm_bad env0 "[chunk_a]" pr0 "''go''" "''a.txt''"
      data_bad "sr_fab ''a.txt''"] bad
  have b: "sr_citations (screen_one env0 pr0 (svc0 (Some llm_bad)) ''go'' ''a.txt'' [chunk_a]) = [?top]"
    by (simp only: top) blast
  have none: "svc_llm (svc0 None) = None" by (simp add: svc0_def)
  from screen_one_citations [of "svc0 None" llm_bad env0 "[chunk_a]" pr0 "''go''" "''a.txt''"
      data_bad "sr_fab ''a.txt''"] none
  have c: "sr_citations (screen_one env0 pr0 (svc0 None) ''go'' ''a.txt'' [chunk_a]) = [?top]"
    by (simp only: top) blast
  have ids: "retrieved_ids [chunk_a] = [''a.txt:0000'']"
    by (simp add: retrieved_ids_def chunk_a_def)
  from a parse_bad [of "''a.txt''" "[chunk_a]"] usable_bad b c ids show ?thesis
    by (simp only: simp_thms)
qed

subsection \<open>Failures of the backend\<close>

lemma screen_resumes_pointwise:
  "length css = length ds \<Longrightarrow>
   \<forall>i<length ds. retrieve env svc job (doc_filter (ds ! i)) = Inr (css ! i) \<Longrightarrow>
   screen_resumes env pr svc job ds
     = Inr (map (\<lambda>(d, cs). screen_one env pr svc job d cs) (zip ds css))"
proof (induction ds arbitrary: css)
  case Nil
  then show ?case by simp
next
  case (Cons d ds)
  from Cons.prems(1) obtain cs rest where css: "css = cs # rest" "length rest = length ds"
    by (cases css) auto
  from Cons.prems(2) have first: "retrieve env svc job (doc_filter d) = Inr cs"
    unfolding css by auto
  have "\<forall>i<length ds. retrieve env svc job (doc_filter (ds ! i)) = Inr (rest ! i)"
  proof (intro allI impI)
    fix i assume "i < length ds"
    then have "Suc i < length (d # ds)" by simp
    with Cons.prems(2) have "retrieve env svc job (doc_filter ((d # ds) ! Suc i)) = Inr (css ! Suc i)"
      by blast
    then show "retrieve env svc job (doc_filter (ds ! i)) = Inr (rest ! i)"
      by (simp add: css)
  qed
  with Cons.IH [OF css(2)] have
    "screen_resumes env pr svc job ds
       = Inr (map (\<lambda>(d, cs). screen_one env pr svc job d cs) (zip ds rest))"
    by simp
  with first show ?case by (simp add: css)
qed

lemma resume_blocks_pointwise:
  "length css = length ds \<Longrightarrow>
   \<forall>i<length ds. retrieve env svc job (doc_filter (ds ! i)) = Inr (css ! i) \<Longrightarrow>
   resume_blocks env svc job ds = Inr (map (\<lambda>(d, cs). resume_block env svc d cs) (zip ds css))"
proof (induction ds arbitrary: css)
  case Nil
  then show ?case by simp
next
  case (Cons d ds)
  from Cons.prems(1) obtain cs rest where css: "css = cs # rest" "length rest = length ds"
    by (cases css) auto
  from Cons.prems(2) have first: "retrieve env svc job (doc_filter d) = Inr cs"
    unfolding css by auto
  have "\<forall>i<length ds. retrieve env svc job (doc_filter (ds ! i)) = Inr (rest ! i)"
  proof (intro allI impI)
    fix i assume "i < length ds"
    then have "Suc i < length (d # ds)" by simp
    with Cons.prems(2) have "retrieve env svc job (doc_filter ((d # ds) ! Suc i)) = Inr (css ! Suc i)"
      by blast
    then show "retrieve env svc job (doc_filter (ds ! i)) = Inr (rest ! i)"
      by (simp add: css)
  qed
  with Cons.IH [OF css(2)] have
    "resume_blocks env svc job ds = Inr (map (\<lambda>(d, cs). resume_block env svc d cs) (zip ds rest))"
    by simp
  with first show ?case by (simp add: css)
qed

text \<open>The texts and the record of the fallbacks, written out.\<close>

lemma unavailable_text_explicit:
  "unavailable_text chunks
   = ''LLM is currently unavailable (for example, due to rate limits or exhausted quota).''
     @ ''\<newline>\<newline>Here are the most relevant excerpts from the resumes instead:\<newline>\<newline>''
     @ join ''\<newline>''
         (map (\<lambda>c. ''- `'' @ rc_chunk_id c @ ''`: '' @ strip (take 220 (rc_text c)) @ ''...'')
            (take 3 chunks))"
  by (simp add: unavailable_text_def bullets_def slices nl_def backtick_def)

lemma refusal_text_explicit:
  "refusal_text reason
   = ''I don't have enough evidence in the indexed resumes to answer that.''
     @ ''\<newline>\<newline>Reason: '' @ reason"
  by (simp add: refusal_text_def nl_def)

lemma resume_block_explicit:
  "resume_block env svc d cs
   = (if fst (guardrail_context env (svc_cfg svc) cs)
      then ''## '' @ d @ ''\<newline>''
           @ join ''\<newline>\<newline>''
               (map (\<lambda>c. ''['' @ rc_chunk_id c @ '' | score='' @ fmt2 env (rc_score c)
                            @ '']\<newline>'' @ rc_text c) cs)
           @ ''\<newline>''
      else ''## '' @ d @ ''\<newline>No strong evidence retrieved. Reason: ''
           @ snd (guardrail_context env (svc_cfg svc) cs) @ ''\<newline>'')"
proof -
  have "context_entry env = (\<lambda>c. ''['' @ rc_chunk_id c @ '' | score='' @ fmt2 env (rc_score c)
                            @ '']\<newline>'' @ rc_text c)"
    by (rule ext) (simp add: context_entry_def nl_def)
  then show ?thesis
    by (cases "guardrail_context env (svc_cfg svc) cs")
       (simp add: resume_block_def context_of_def nl_def)
qed

lemma compare_unavailable_text_explicit:
  "compare_unavailable_text blocks
   = ''LLM is currently unavailable (for example, due to rate limits or exhausted quota).''
     @ ''\<newline>\<newline>Here is the raw evidence per resume instead:\<newline>\<newline>''
     @ join ''\<newline>\<newline>'' (take 6 blocks)"
  by (simp add: compare_unavailable_text_def slices nl_def)

lemma screen_fallback_explicit:
  "screen_fallback d job chunks reason
   = (let top = take 5 chunks;
          conf = (if top = [] then 0 else (\<Sum>c\<leftarrow>top. rc_score c) / real (length top))
      in \<lparr>sr_resume_name = d,
          sr_overall_fit = (if conf < 35 / 100 then ''Unclear''
                            else if conf < 55 / 100 then ''Moderate'' else ''Strong''),
          sr_confidence = max 0 (min 1 conf),
          sr_summary = ''LLM is not configured or retrieval confidence is low. ''
                       @ ''Showing best-effort, evidence-first excerpts.\<newline>Reason: '' @ reason,
          sr_strengths = [''See cited excerpts for evidence; configure LLM for richer synthesis.''],
          sr_gaps =
            [''Insufficient evidence to fully assess without stronger retrieval / LLM synthesis.''],
          sr_citations = map (\<lambda>t. \<lparr>cit_source = d, cit_chunk_id = rc_chunk_id t,
                                      cit_quote = strip (take 240 (rc_text t))\<rparr>) (take 3 chunks)\<rparr>)"
proof -
  have top3: "take 3 (take 5 chunks) = take 3 chunks" by simp
  have neg: "(if a \<noteq> b then x else y) = (if a = b then y else x)"
    for a b :: "RetrievedChunk list" and x y :: real
    by simp
  have cit: "citation_of_chunk d = (\<lambda>t. \<lparr>cit_source = d, cit_chunk_id = rc_chunk_id t,
                                      cit_quote = strip (take 240 (rc_text t))\<rparr>)"
    by (rule ext) (simp add: citation_of_chunk_def slices)
  show ?thesis
    by (simp only: screen_fallback_def Let_def slices nl_def cit top3 neg append_Cons append_Nil)
qed

lemma answer_from_backend_error:
  assumes "svc_llm svc = Some l"
    and "complete_markdown l (ANSWER_SYSTEM pr) (answer_user env question chunks) = Inl e"
  shows "answer_from env pr svc question chunks
         = (if fst (guardrail_context env (svc_cfg svc) chunks) then unavailable_text chunks
            else refusal_text (snd (guardrail_context env (svc_cfg svc) chunks)))"
  using assms by (simp add: answer_from_def split: prod.splits)

lemma compare_from_backend_error:
  assumes "svc_llm svc = Some l"
    and "complete_markdown l (COMPARE_SYSTEM pr) (compare_user job blocks) = Inl e"
  shows "compare_from pr svc job blocks = compare_unavailable_text blocks"
  using assms by (simp add: compare_from_def)

lemma screen_one_backend_error:
  assumes "svc_llm svc = Some l"
    and "complete_json l (SCREEN_SYSTEM pr) (screen_user env job d chunks) = Inl e \<or>
         (\<exists>data. complete_json l (SCREEN_SYSTEM pr) (screen_user env job d chunks) = Inr data \<and>
                 parse_screening_json env d data chunks = Inl e)"
  shows "screen_one env pr svc job d chunks
         = screen_fallback d job chunks
             (if fst (guardrail_context env (svc_cfg svc) chunks) then ''LLM error: '' @ class_name e
              else snd (guardrail_context env (svc_cfg svc) chunks))"
proof (cases "guardrail_context env (svc_cfg svc) chunks")
  case (Pair ok reason)
  with assms show ?thesis by (cases ok) (auto simp: screen_one_def)
qed

lemma screen_one_same_response:
  fixes l l' :: LLM
  assumes "svc_llm svc = Some l"
    and "complete_json l' (SCREEN_SYSTEM pr) (screen_user env job d chunks)
         = complete_json l (SCREEN_SYSTEM pr) (screen_user env job d chunks)"
  shows "screen_one env pr (svc\<lparr>svc_llm := Some l'\<rparr>) job d chunks = screen_one env pr svc job d chunks"
  using assms by (simp add: screen_one_def split: prod.splits)

text \<open>
  Claim C7. With a backend configured, whenever the call of the backend raises after a
  retrieval that returned, the three entry points return a value built from the retrieved
  evidence alone:

  \<^item> \<^verbatim>\<open>answer_question\<close> returns the notice that the backend is unavailable followed by one
    bullet per chunk of the top three, with the chunk id and the first 220 characters of
    the text (or the refusal with the reason of the gate, when the gate had failed);
  \<^item> \<^verbatim>\<open>compare_resumes\<close> returns the notice followed by the first six blocks, one block
    per document holding its name and its retrieved chunks with their ids and scores (or
    the reason of the gate);
  \<^item> the loop of \<^verbatim>\<open>screen_resumes\<close> yields for that document the fallback record: the
    name of the document, a label and a confidence computed from the mean score of the top
    five chunks, a summary that ends with the class of the error, and the top three chunks
    as citations. The same holds when the call returned and
    \<^verbatim>\<open>_parse_screening_json\<close> raised on the response.

  \<^verbatim>\<open>screen_resumes\<close> returns one result per document, computed from the chunks of that
  document and the response to its own prompt: a backend that answers that prompt in the
  same way gives the same result, whatever it does on the prompts of the other documents.
\<close>

theorem backend_failure_falls_back:
  assumes llm: "svc_llm svc = Some l"
  shows
    "(\<forall>chunks e.
        retrieve env svc question None = Inr chunks \<longrightarrow>
        complete_markdown l (ANSWER_SYSTEM pr) (answer_user env question chunks) = Inl e \<longrightarrow>
        answer_question env pr svc question
          = Inr (if fst (guardrail_context env (svc_cfg svc) chunks)
                 then ''LLM is currently unavailable (for example, due to rate limits or exhausted quota).''
                      @ ''\<newline>\<newline>Here are the most relevant excerpts from the resumes instead:\<newline>\<newline>''
                      @ join ''\<newline>''
                          (map (\<lambda>c. ''- `'' @ rc_chunk_id c @ ''`: ''
                                     @ strip (take 220 (rc_text c)) @ ''...'')
                             (take 3 chunks))
                 else ''I don't have enough evidence in the indexed resumes to answer that.''
                      @ ''\<newline>\<newline>Reason: ''
                      @ snd (guardrail_context env (svc_cfg svc) chunks))) \<and>
     (\<forall>css.
        length css = length ds \<longrightarrow>
        (\<forall>i<length ds. retrieve env svc job (doc_filter (ds ! i)) = Inr (css ! i)) \<longrightarrow>
        resume_blocks env svc job ds
          = Inr (map (\<lambda>(d, cs).
                   if fst (guardrail_context env (svc_cfg svc) cs)
                   then ''## '' @ d @ ''\<newline>''
                        @ join ''\<newline>\<newline>''
                            (map (\<lambda>c. ''['' @ rc_chunk_id c @ '' | score='' @ fmt2 env (rc_score c)
                                         @ '']\<newline>'' @ rc_text c) cs)
                        @ ''\<newline>''
                   else ''## '' @ d @ ''\<newline>No strong evidence retrieved. Reason: ''
                        @ snd (guardrail_context env (svc_cfg svc) cs) @ ''\<newline>'')
                 (zip ds css)) \<and>
        screen_resumes env pr svc job ds
          = Inr (map (\<lambda>(d, cs). screen_one env pr svc job d cs) (zip ds css))) \<and>
     (\<forall>blocks e.
        resume_blocks env svc job ds = Inr blocks \<longrightarrow>
        complete_markdown l (COMPARE_SYSTEM pr) (compare_user job blocks) = Inl e \<longrightarrow>
        compare_resumes env pr svc job ds
          = Inr (''LLM is currently unavailable (for example, due to rate limits or exhausted quota).''
                 @ ''\<newline>\<newline>Here is the raw evidence per resume instead:\<newline>\<newline>''
                 @ join ''\<newline>\<newline>'' (take 6 blocks))) \<and>
     (\<forall>d chunks e.
        complete_json l (SCREEN_SYSTEM pr) (screen_user env job d chunks) = Inl e \<or>
        (\<exists>data. complete_json l (SCREEN_SYSTEM pr) (screen_user env job d chunks) = Inr data \<and>
                parse_screening_json env d data chunks = Inl e) \<longrightarrow>
        screen_one env pr svc job d chunks
          = (let top = take 5 chunks;
                 conf = (if top = [] then 0 else (\<Sum>c\<leftarrow>top. rc_score c) / real (length top))
             in \<lparr>sr_resume_name = d,
                 sr_overall_fit = (if conf < 35 / 100 then ''Unclear''
                                   else if conf < 55 / 100 then ''Moderate'' else ''Strong''),
                 sr_confidence = max 0 (min 1 conf),
                 sr_summary =
                   ''LLM is not configured or retrieval confidence is low. ''
                   @ ''Showing best-effort, evidence-first excerpts.\<newline>Reason: ''
                   @ (if fst (guardrail_context env (svc_cfg svc) chunks)
                      then ''LLM error: '' @ class_name e
                      else snd (guardrail_context env (svc_cfg svc) chunks)),
                 sr_strengths =
                   [''See cited excerpts for evidence; configure LLM for richer synthesis.''],
                 sr_gaps =
                   [''Insufficient evidence to fully assess without stronger retrieval / LLM synthesis.''],
                 sr_citations =
                   map (\<lambda>t. \<lparr>cit_source = d, cit_chunk_id = rc_chunk_id t,
                               cit_quote = strip (take 240 (rc_text t))\<rparr>) (take 3 chunks)\<rparr>)) \<and>
     (\<forall>d chunks. \<forall>l' :: LLM.
        complete_json l' (SCREEN_SYSTEM pr) (screen_user env job d chunks)
          = complete_json l (SCREEN_SYSTEM pr) (screen_user env job d chunks) \<longrightarrow>
        screen_one env pr (svc\<lparr>svc_llm := Some l'\<rparr>) job d chunks
          = screen_one env pr svc job d chunks)"
proof (intro conjI allI impI)
  fix chunks e
  assume "retrieve env svc question None = Inr chunks"
    and "complete_markdown l (ANSWER_SYSTEM pr) (answer_user env question chunks) = Inl e"
  with answer_from_backend_error [OF llm]
  have "answer_question env pr svc question
          = Inr (if fst (guardrail_context env (svc_cfg svc) chunks) then unavailable_text chunks
                 else refusal_text (snd (guardrail_context env (svc_cfg svc) chunks)))"
    by (simp add: answer_question_def)
  then show "answer_question env pr svc question
          = Inr (if fst (guardrail_context env (svc_cfg svc) chunks)
                 then ''LLM is currently unavailable (for example, due to rate limits or exhausted quota).''
                      @ ''\<newline>\<newline>Here are the most relevant excerpts from the resumes instead:\<newline>\<newline>''
                      @ join ''\<newline>''
                          (map (\<lambda>c. ''- `'' @ rc_chunk_id c @ ''`: ''
                                     @ strip (take 220 (rc_text c)) @ ''...'')
                             (take 3 chunks))
                 else ''I don't have enough evidence in the indexed resumes to answer that.''
                      @ ''\<newline>\<newline>Reason: ''
                      @ snd (guardrail_context env (svc_cfg svc) chunks))"
    by (simp only: unavailable_text_explicit refusal_text_explicit)
next
  fix css
  assume "length css = length ds"
    and "\<forall>i<length ds. retrieve env svc job (doc_filter (ds ! i)) = Inr (css ! i)"
  then have "resume_blocks env svc job ds
          = Inr (map (\<lambda>(d, cs). resume_block env svc d cs) (zip ds css))"
    by (rule resume_blocks_pointwise)
  then show "resume_blocks env svc job ds
          = Inr (map (\<lambda>(d, cs).
                   if fst (guardrail_context env (svc_cfg svc) cs)
                   then ''## '' @ d @ ''\<newline>''
                        @ join ''\<newline>\<newline>''
                            (map (\<lambda>c. ''['' @ rc_chunk_id c @ '' | score='' @ fmt2 env (rc_score c)
                                         @ '']\<newline>'' @ rc_text c) cs)
                        @ ''\<newline>''
                   else ''## '' @ d @ ''\<newline>No strong evidence retrieved. Reason: ''
                        @ snd (guardrail_context env (svc_cfg svc) cs) @ ''\<newline>'')
                 (zip ds css))"
    by (simp only: resume_block_explicit)
next
  fix css
  assume "length css = length ds"
    and "\<forall>i<length ds. retrieve env svc job (doc_filter (ds ! i)) = Inr (css ! i)"
  then show "screen_resumes env pr svc job ds
          = Inr (map (\<lambda>(d, cs). screen_one env pr svc job d cs) (zip ds css))"
    by (rule screen_resumes_pointwise)
next
  fix blocks e
  assume "resume_blocks env svc job ds = Inr blocks"
    and "complete_markdown l (COMPARE_SYSTEM pr) (compare_user job blocks) = Inl e"
  with compare_from_backend_error [OF llm]
  have "compare_resumes env pr svc job ds = Inr (compare_unavailable_text blocks)"
    by (simp add: compare_resumes_def)
  then show "compare_resumes env pr svc job ds
          = Inr (''LLM is currently unavailable (for example, due to rate limits or exhausted quota).''
                 @ ''\<newline>\<newline>Here is the raw evidence per resume instead:\<newline>\<newline>''
                 @ join ''\<newline>\<newline>'' (take 6 blocks))"
    by (simp only: compare_unavailable_text_explicit)
next
  fix d chunks e
  assume "complete_json l (SCREEN_SYSTEM pr) (screen_user env job d chunks) = Inl e \<or>
        (\<exists>data. complete_json l (SCREEN_SYSTEM pr) (screen_user env job d chunks) = Inr data \<and>
                parse_screening_json env d data chunks = Inl e)"
  with llm have "screen_one env pr svc job d chunks
         = screen_fallback d job chunks
             (if fst (guardrail_context env (svc_cfg svc) chunks) then ''LLM error: '' @ class_name e
              else snd (guardrail_context env (svc_cfg svc) chunks))"
    by (rule screen_one_backend_error)
  then show "screen_one env pr svc job d chunks
          = (let top = take 5 chunks;
                 conf = (if top = [] then 0 else (\<Sum>c\<leftarrow>top. rc_score c) / real (length top))
             in \<lparr>sr_resume_name = d,
                 sr_overall_fit = (if conf < 35 / 100 then ''Unclear''
                                   else if conf < 55 / 100 then ''Moderate'' else ''Strong''),
                 sr_confidence = max 0 (min 1 conf),
                 sr_summary =
                   ''LLM is not configured or retrieval confidence is low. ''
                   @ ''Showing best-effort, evidence-first excerpts.\<newline>Reason: ''
                   @ (if fst (guardrail_context env (svc_cfg svc) chunks)
                      then ''LLM error: '' @ class_name e
                      else snd (guardrail_context env (svc_cfg svc) chunks)),
                 sr_strengths =
                   [''See cited excerpts for evidence; configure LLM for richer synthesis.''],
                 sr_gaps =
                   [''Insufficient evidence to fully assess without stronger retrieval / LLM synthesis.''],
                 sr_citations =
                   map (\<lambda>t. \<lparr>cit_source = d, cit_chunk_id = rc_chunk_id t,
                               cit_quote = strip (take 240 (rc_text t))\<rparr>) (take 3 chunks)\<rparr>)"
    by (simp only: screen_fallback_explicit)
next
  fix d chunks and l' :: LLM
  assume "complete_json l' (SCREEN_SYSTEM pr) (screen_user env job d chunks)
                = complete_json l (SCREEN_SYSTEM pr) (screen_user env job d chunks)"
  with llm show "screen_one env pr (svc\<lparr>svc_llm := Some l'\<rparr>) job d chunks
                = screen_one env pr svc job d chunks"
    by (rule screen_one_same_response)
qed

text \<open>A backend that raises \<^verbatim>\<open>ReadTimeout\<close> on every markdown call and on the screening
  prompt of \<^verbatim>\<open>a.txt\<close>, and answers the screening prompt of \<^verbatim>\<open>b.txt\<close>; the scores 1 and 0.5
  print as \<^verbatim>\<open>1.00\<close> and \<^verbatim>\<open>0.50\<close>. The result for \<^verbatim>\<open>b.txt\<close> is the one a backend that never
  raises gives.\<close>

theorem backend_failure_falls_back_witness:
  "svc_llm (svc0 (Some llm_flaky)) = Some llm_flaky \<and>
   retrieve env1 (svc0 (Some llm_flaky)) ''go'' None = Inr [chunk_a, chunk_b] \<and>
   complete_markdown llm_flaky ''A'' (answer_user env1 ''go'' [chunk_a, chunk_b])
     = Inl (BackendError ''ReadTimeout'') \<and>
   answer_question env1 pr0 (svc0 (Some llm_flaky)) ''go''
     = Inr (''LLM is currently unavailable (for example, due to rate limits or exhausted quota).''
            @ ''\<newline>\<newline>Here are the most relevant excerpts from the resumes instead:\<newline>\<newline>''
            @ ''- `a.txt:0000`: go rust...\<newline>- `b.txt:0000`: go java...'') \<and>
   compare_resumes env1 pr0 (svc0 (Some llm_flaky)) ''go'' [''a.txt'', ''b.txt'']
     = Inr (''LLM is currently unavailable (for example, due to rate limits or exhausted quota).''
            @ ''\<newline>\<newline>Here is the raw evidence per resume instead:\<newline>\<newline>''
            @ ''## a.txt\<newline>[a.txt:0000 | score=1.00]\<newline>go rust\<newline>''
            @ ''\<newline>\<newline>''
            @ ''## b.txt\<newline>[b.txt:0000 | score=0.50]\<newline>go java\<newline>'') \<and>
   complete_json llm_flaky ''S'' (screen_user env1 ''go'' ''a.txt'' [chunk_a])
     = Inl (BackendError ''ReadTimeout'') \<and>
   screen_resumes env1 pr0 (svc0 (Some llm_flaky)) ''go'' [''a.txt'', ''b.txt'']
     = Inr [\<lparr>sr_resume_name = ''a.txt'', sr_overall_fit = ''Strong'', sr_confidence = 1,
             sr_summary =
               ''LLM is not configured or retrieval confidence is low. ''
               @ ''Showing best-effort, evidence-first excerpts.\<newline>Reason: LLM error: ReadTimeout'',
             sr_strengths =
               [''See cited excerpts for evidence; configure LLM for richer synthesis.''],
             sr_gaps =
               [''Insufficient evidence to fully assess without stronger retrieval / LLM synthesis.''],
             sr_citations = [\<lparr>cit_source = ''a.txt'', cit_chunk_id = ''a.txt:0000'',
                               cit_quote = ''go rust''\<rparr>]\<rparr>,
            \<lparr>sr_resume_name = ''b.txt'', sr_overall_fit = ''Strong'', sr_confidence = 9 / 10,
             sr_summary = ''fits'', sr_strengths = [], sr_gaps = [],
             sr_citations = [\<lparr>cit_source = ''b.txt'', cit_chunk_id = ''fabricated'',
                               cit_quote = ''ten years of Go''\<rparr>]\<rparr>] \<and>
   screen_one env1 pr0 (svc0 (Some llm_fab)) ''go'' ''b.txt'' [chunk_b]
     = \<lparr>sr_resume_name = ''b.txt'', sr_overall_fit = ''Strong'', sr_confidence = 9 / 10,
        sr_summary = ''fits'', sr_strengths = [], sr_gaps = [],
        sr_citations = [\<lparr>cit_source = ''b.txt'', cit_chunk_id = ''fabricated'',
                          cit_quote = ''ten years of Go''\<rparr>]\<rparr>"
proof -
  let ?svc = "svc0 (Some llm_flaky)"
  let ?ds = "[''a.txt'', ''b.txt'']"
  let ?css = "[[chunk_a], [chunk_b]]"
  let ?fallback_a =
    "\<lparr>sr_resume_name = ''a.txt'', sr_overall_fit = ''Strong'', sr_confidence = 1,
      sr_summary =
        ''LLM is not configured or retrieval confidence is low. ''
        @ ''Showing best-effort, evidence-first excerpts.\<newline>Reason: LLM error: ReadTimeout'',
      sr_strengths =
        [''See cited excerpts for evidence; configure LLM for richer synthesis.''],
      sr_gaps =
        [''Insufficient evidence to fully assess without stronger retrieval / LLM synthesis.''],
      sr_citations = [\<lparr>cit_source = ''a.txt'', cit_chunk_id = ''a.txt:0000'',
                        cit_quote = ''go rust''\<rparr>]\<rparr>"
  have llm: "svc_llm ?svc = Some llm_flaky" by (simp add: svc0_def)
  have sys: "ANSWER_SYSTEM pr0 = ''A''" "COMPARE_SYSTEM pr0 = ''C''" "SCREEN_SYSTEM pr0 = ''S''"
    by (simp_all add: pr0_def)
  have md: "complete_markdown llm_flaky s u = Inl (BackendError ''ReadTimeout'')" for s u
    by (simp add: llm_flaky_def timeout_error_def)
  have js: "complete_json llm_flaky ''S'' (screen_user env1 ''go'' ''a.txt'' [chunk_a])
              = Inl (BackendError ''ReadTimeout'')"
    using flaky_on_a by (simp add: sys timeout_error_def)
  note inst = backend_failure_falls_back [OF llm, of env1 "''go''" pr0 ?ds "''go''"]
  have len: "length ?css = length ?ds" by simp
  have ret: "\<forall>i<length ?ds. retrieve env1 ?svc ''go'' (doc_filter (?ds ! i)) = Inr (?css ! i)"
    by (simp add: All_less_Suc retrieve_a1 retrieve_b1)

  from inst have "\<forall>chunks e.
        retrieve env1 ?svc ''go'' None = Inr chunks \<longrightarrow>
        complete_markdown llm_flaky (ANSWER_SYSTEM pr0) (answer_user env1 ''go'' chunks) = Inl e \<longrightarrow>
        answer_question env1 pr0 ?svc ''go''
          = Inr (if fst (guardrail_context env1 (svc_cfg ?svc) chunks)
                 then ''LLM is currently unavailable (for example, due to rate limits or exhausted quota).''
                      @ ''\<newline>\<newline>Here are the most relevant excerpts from the resumes instead:\<newline>\<newline>''
                      @ join ''\<newline>''
                          (map (\<lambda>c. ''- `'' @ rc_chunk_id c @ ''`: ''
                                     @ strip (take 220 (rc_text c)) @ ''...'')
                             (take 3 chunks))
                 else ''I don't have enough evidence in the indexed resumes to answer that.''
                      @ ''\<newline>\<newline>Reason: ''
                      @ snd (guardrail_context env1 (svc_cfg ?svc) chunks))"
    by (rule conjunct1)
  from this [rule_format, OF retrieve_all1 md]
  have answer: "answer_question env1 pr0 ?svc ''go''
     = Inr (''LLM is currently unavailable (for example, due to rate limits or exhausted quota).''
            @ ''\<newline>\<newline>Here are the most relevant excerpts from the resumes instead:\<newline>\<newline>''
            @ ''- `a.txt:0000`: go rust...\<newline>- `b.txt:0000`: go java...'')"
    by (simp add: gate_all1 del: guardrail_context.simps)
       (simp add: chunk_a_def chunk_b_def strip_def is_space_def)

  from inst have second: "\<forall>css.
        length css = length ?ds \<longrightarrow>
        (\<forall>i<length ?ds. retrieve env1 ?svc ''go'' (doc_filter (?ds ! i)) = Inr (css ! i)) \<longrightarrow>
        resume_blocks env1 ?svc ''go'' ?ds
          = Inr (map (\<lambda>(d, cs).
                   if fst (guardrail_context env1 (svc_cfg ?svc) cs)
                   then ''## '' @ d @ ''\<newline>''
                        @ join ''\<newline>\<newline>''
                            (map (\<lambda>c. ''['' @ rc_chunk_id c @ '' | score='' @ fmt2 env1 (rc_score c)
                                         @ '']\<newline>'' @ rc_text c) cs)
                        @ ''\<newline>''
                   else ''## '' @ d @ ''\<newline>No strong evidence retrieved. Reason: ''
                        @ snd (guardrail_context env1 (svc_cfg ?svc) cs) @ ''\<newline>'')
                 (zip ?ds css)) \<and>
        screen_resumes env1 pr0 ?svc ''go'' ?ds
          = Inr (map (\<lambda>(d, cs). screen_one env1 pr0 ?svc ''go'' d cs) (zip ?ds css))"
    by (rule conjunct2 [THEN conjunct1])
  note both = mp [OF mp [OF spec [OF second, where x = "?css"] len] ret]
  from both [THEN conjunct1]
  have blocks: "resume_blocks env1 ?svc ''go'' ?ds
     = Inr [''## a.txt\<newline>[a.txt:0000 | score=1.00]\<newline>go rust\<newline>'',
            ''## b.txt\<newline>[b.txt:0000 | score=0.50]\<newline>go java\<newline>'']"
    by (simp add: gate_a1 gate_b1 del: guardrail_context.simps)
       (simp add: chunk_a_def chunk_b_def fmt2_scores)
  from both [THEN conjunct2]
  have each: "screen_resumes env1 pr0 ?svc ''go'' ?ds
     = Inr [screen_one env1 pr0 ?svc ''go'' ''a.txt'' [chunk_a],
            screen_one env1 pr0 ?svc ''go'' ''b.txt'' [chunk_b]]"
    by simp

  from inst have "\<forall>blocks e.
        resume_blocks env1 ?svc ''go'' ?ds = Inr blocks \<longrightarrow>
        complete_markdown llm_flaky (COMPARE_SYSTEM pr0) (compare_user ''go'' blocks) = Inl e \<longrightarrow>
        compare_resumes env1 pr0 ?svc ''go'' ?ds
          = Inr (''LLM is currently unavailable (for example, due to rate limits or exhausted quota).''
                 @ ''\<newline>\<newline>Here is the raw evidence per resume instead:\<newline>\<newline>''
                 @ join ''\<newline>\<newline>'' (take 6 blocks))"
    by (rule conjunct2 [THEN conjunct2, THEN conjunct1])
  from this [rule_format, OF blocks md]
  have compare: "compare_resumes env1 pr0 ?svc ''go'' ?ds
     = Inr (''LLM is currently unavailable (for example, due to rate limits or exhausted quota).''
            @ ''\<newline>\<newline>Here is the raw evidence per resume instead:\<newline>\<newline>''
            @ ''## a.txt\<newline>[a.txt:0000 | score=1.00]\<newline>go rust\<newline>''
            @ ''\<newline>\<newline>''
            @ ''## b.txt\<newline>[b.txt:0000 | score=0.50]\<newline>go java\<newline>'')"
    by simp

  from inst have "\<forall>d chunks e.
        complete_json llm_flaky (SCREEN_SYSTEM pr0) (screen_user env1 ''go'' d chunks) = Inl e \<or>
        (\<exists>data. complete_json llm_flaky (SCREEN_SYSTEM pr0) (screen_user env1 ''go'' d chunks) = Inr data \<and>
                parse_screening_json env1 d data chunks = Inl e) \<longrightarrow>
        screen_one env1 pr0 ?svc ''go'' d chunks
          = (let top = take 5 chunks;
                 conf = (if top = [] then 0 else (\<Sum>c\<leftarrow>top. rc_score c) / real (length top))
             in \<lparr>sr_resume_name = d,
                 sr_overall_fit = (if conf < 35 / 100 then ''Unclear''
                                   else if conf < 55 / 100 then ''Moderate'' else ''Strong''),
                 sr_confidence = max 0 (min 1 conf),
                 sr_summary =
                   ''LLM is not configured or retrieval confidence is low. ''
                   @ ''Showing best-effort, evidence-first excerpts.\<newline>Reason: ''
                   @ (if fst (guardrail_context env1 (svc_cfg ?svc) chunks)
                      then ''LLM error: '' @ class_name e
                      else snd (guardrail_context env1 (svc_cfg ?svc) chunks)),
                 sr_strengths =
                   [''See cited excerpts for evidence; configure LLM for richer synthesis.''],
                 sr_gaps =
                   [''Insufficient evidence to fully assess without stronger retrieval / LLM synthesis.''],
                 sr_citations =
                   map (\<lambda>t. \<lparr>cit_source = d, cit_chunk_id = rc_chunk_id t,
                               cit_quote = strip (take 240 (rc_text t))\<rparr>) (take 3 chunks)\<rparr>)"
    by (rule conjunct2 [THEN conjunct2, THEN conjunct2, THEN conjunct1])
  from this [rule_format, of "''a.txt''" "[chunk_a]" "BackendError ''ReadTimeout''"] js
  have first: "screen_one env1 pr0 ?svc ''go'' ''a.txt'' [chunk_a] = ?fallback_a"
    by (simp add: sys gate_a1 del: guardrail_context.simps)
       (simp add: chunk_a_def strip_def is_space_def)

  from inst have "\<forall>d chunks. \<forall>l' :: LLM.
        complete_json l' (SCREEN_SYSTEM pr0) (screen_user env1 ''go'' d chunks)
          = complete_json llm_flaky (SCREEN_SYSTEM pr0) (screen_user env1 ''go'' d chunks) \<longrightarrow>
        screen_one env1 pr0 (?svc\<lparr>svc_llm := Some l'\<rparr>) ''go'' d chunks
          = screen_one env1 pr0 ?svc ''go'' d chunks"
    by (rule conjunct2 [THEN conjunct2, THEN conjunct2, THEN conjunct2])
  from this [rule_format, of llm_fab "''b.txt''" "[chunk_b]"] flaky_on_b
  have same: "screen_one env1 pr0 (svc0 (Some llm_fab)) ''go'' ''b.txt'' [chunk_b]
              = screen_one env1 pr0 ?svc ''go'' ''b.txt'' [chunk_b]"
    by (simp add: svc0_def llm_fab_def)
  have "screen_one env1 pr0 (svc0 (Some llm_fab)) ''go'' ''b.txt'' [chunk_b] = sr_fab ''b.txt''"
    by (simp add: screen_one_def svc0_def py_max_def cfg0_def chunk_b_def llm_fab_def parse_fab1)
  then have fab_b: "screen_one env1 pr0 (svc0 (Some llm_fab)) ''go'' ''b.txt'' [chunk_b]
     = \<lparr>sr_resume_name = ''b.txt'', sr_overall_fit = ''Strong'', sr_confidence = 9 / 10,
        sr_summary = ''fits'', sr_strengths = [], sr_gaps = [],
        sr_citations = [\<lparr>cit_source = ''b.txt'', cit_chunk_id = ''fabricated'',
                          cit_quote = ''ten years of Go''\<rparr>]\<rparr>"
    by (simp add: sr_fab_def)
  from each first same fab_b
  have screen: "screen_resumes env1 pr0 ?svc ''go'' ?ds
     = Inr [?fallback_a,
            \<lparr>sr_resume_name = ''b.txt'', sr_overall_fit = ''Strong'', sr_confidence = 9 / 10,
             sr_summary = ''fits'', sr_strengths = [], sr_gaps = [],
             sr_citations = [\<lparr>cit_source = ''b.txt'', cit_chunk_id = ''fabricated'',
                               cit_quote = ''ten years of Go''\<rparr>]\<rparr>]"
    by (simp only:)
  from llm retrieve_all1 [of "Some llm_flaky"] md [of "''A''" "answer_user env1 ''go'' [chunk_a, chunk_b]"]
    answer compare js screen fab_b
  show ?thesis by (simp only: simp_thms)
qed

end
